theory Spec2Isabelle
  imports Complex_Main
begin

section \<open>Alert dispatcher (src/alerts/telegram.ts, class TelegramBot)\<close>

text \<open>
  Timestamps (\<open>Date.now()\<close>, milliseconds) and the configured cooldown are integers.
  Gauge values and thresholds are JavaScript numbers (IEEE doubles); a double is a real
  number, and comparing two doubles is comparing them as reals. The result of a double
  multiplication or division is rounded, so it is not computed on reals here: the two
  results that decide a branch (\<open>threshold * 1.2\<close> in \<open>sendResourceAlert\<close> and
  \<open>(errors / requests) * 100\<close> in \<open>checkResources\<close>) are read from the environment of the code,
  next to its configuration.
\<close>

datatype severity = Info | Warning | Critical

datatype resource_type = Cpu | Memory | Disk | ResponseTime | Latency

datatype performance_type = BlockSync | ArnsCache | ErrorRate

datatype observer_alert_type = ReportFailed | NotSelected | LowWeight

fun severityName :: "severity \<Rightarrow> string" where
  "severityName Info = ''info''"
| "severityName Warning = ''warning''"
| "severityName Critical = ''critical''"

fun resourceName :: "resource_type \<Rightarrow> string" where
  "resourceName Cpu = ''cpu''"
| "resourceName Memory = ''memory''"
| "resourceName Disk = ''disk''"
| "resourceName ResponseTime = ''response_time''"
| "resourceName Latency = ''latency''"

fun performanceName :: "performance_type \<Rightarrow> string" where
  "performanceName BlockSync = ''block_sync''"
| "performanceName ArnsCache = ''arns_cache''"
| "performanceName ErrorRate = ''error_rate''"

fun observerAlertName :: "observer_alert_type \<Rightarrow> string" where
  "observerAlertName ReportFailed = ''report_failed''"
| "observerAlertName NotSelected = ''not_selected''"
| "observerAlertName LowWeight = ''low_weight''"

text \<open>
  The keys of \<open>lastAlertTime\<close>. The source builds them as template strings:
  \<^verbatim>\<open>`${type}:${message}`\<close> in \<open>sendAlert\<close>,
  \<^verbatim>\<open>`resource:${type}:${threshold}`\<close> in \<open>sendResourceAlert\<close>,
  \<^verbatim>\<open>`performance:${type}`\<close> in \<open>sendPerformanceAlert\<close>,
  \<^verbatim>\<open>`observer:${type}`\<close> in \<open>sendObserverAlert\<close>,
  \<^verbatim>\<open>`gateway:${eventType}:${change.address}`\<close> in \<open>sendGatewayChangeAlert\<close> and
  \<^verbatim>\<open>`arns:${change.type}:${change.name}`\<close> in \<open>sendArnsChangeAlert\<close>.
  The prefixes are pairwise different, so one constructor per template keeps exactly the
  components each template interpolates.
\<close>

datatype alert_key =
    GenericKey severity string
  | ResourceKey resource_type real
  | PerformanceKey performance_type
  | ObserverKey observer_alert_type
  | GatewayKey string string
  | ArnsKey string string

text \<open>\<open>AlertHistoryEntry\<close>; \<open>sendAlert\<close> never fills the optional category.\<close>

record history_entry =
  h_timestamp :: int
  h_type :: string
  h_message :: string
  h_severity :: severity

text \<open>
  What is handed to \<open>bot.telegram.sendMessage\<close>: the heading shown in bold on the first
  line of the text (\<open>severityText\<close>, or the upper-cased type in \<open>sendAlert\<close>), the category
  of the mute button (\<^verbatim>\<open>mute_menu:<category>\<close>) and the data interpolated into
  the body. The rendering of the body as text (number and date formatting, the optional
  \<open>duration\<close> and \<open>additional\<close> lines, the excerpt of the error log) decides no branch of a
  sender and is not part of the model.
\<close>

text \<open>The \<open>details\<close> argument of \<open>sendObserverAlert\<close> (its free text \<open>additional\<close> left out).\<close>

record observer_details =
  d_value :: "real option"
  d_threshold :: "real option"
  d_epochIndex :: "int option"

datatype body =
    GenericBody string
  | ResourceBody resource_type real real
  | PerformanceBody performance_type real real
  | ObserverBody observer_alert_type observer_details
  | GatewayBody string string
  | ArnsBody string string

record notification =
  n_heading :: string
  n_muteButton :: string
  n_body :: body

text \<open>
  The source's senders return nothing; the model returns which \<open>return\<close> was reached, and
  the notification when \<open>sendMessage\<close> is called (a failing \<open>sendMessage\<close> is caught and
  logged by each sender, the call itself has been made).
\<close>

datatype outcome =
    Sent notification
  | SuppressedCooldown
  | SuppressedGlobalMute
  | SuppressedCategoryMute

fun channelCalls :: "outcome \<Rightarrow> nat" where
  "channelCalls (Sent n) = 1"
| "channelCalls SuppressedCooldown = 0"
| "channelCalls SuppressedGlobalMute = 0"
| "channelCalls SuppressedCategoryMute = 0"

text \<open>The fields of \<open>TelegramBot\<close> that the senders read and write.\<close>

record bot =
  lastAlertTime :: "alert_key \<rightharpoonup> int"
  alertHistory :: "history_entry list"
  isMuted :: bool
  muteUntil :: "int option"
  categoryMutes :: "string \<rightharpoonup> int"

definition initialBot :: bot where
  "initialBot = \<lparr> lastAlertTime = Map.empty, alertHistory = [], isMuted = False,
     muteUntil = None, categoryMutes = Map.empty \<rparr>"

text \<open>\<open>this.lastAlertTime.get(alertKey) || 0\<close>\<close>

definition lastAlertOf :: "bot \<Rightarrow> alert_key \<Rightarrow> int" where
  "lastAlertOf b k = (case lastAlertTime b k of None \<Rightarrow> 0 | Some t \<Rightarrow> t)"

text \<open>JavaScript truthiness of an optional number (\<open>undefined\<close> and \<open>0\<close> are falsy) and of an
  optional string (\<open>undefined\<close> and the empty string are falsy).\<close>

definition truthyNum :: "int option \<Rightarrow> bool" where
  "truthyNum v = (case v of None \<Rightarrow> False | Some n \<Rightarrow> n \<noteq> 0)"

definition truthyStr :: "string option \<Rightarrow> bool" where
  "truthyStr v = (case v of None \<Rightarrow> False | Some s \<Rightarrow> s \<noteq> [])"

text \<open>\<open>message.split('\n')[0] || type\<close>\<close>

definition historyType :: "severity \<Rightarrow> string \<Rightarrow> string" where
  "historyType ty message =
     (let firstLine = takeWhile (\<lambda>c. c \<noteq> CHR 0x0A) message
      in if firstLine = [] then severityName ty else firstLine)"

text \<open>What the senders read from their environment: \<open>config.monitoring.alertCooldown\<close>, and
  the double product \<open>threshold * 1.2\<close> as the runtime computes it.\<close>

record dispatch_config =
  alertCooldown :: int
  timesOnePointTwo :: "real \<Rightarrow> real"

text \<open>The first two blocks of \<open>sendAlert\<close>: "Clear mute if expired" and "Clear expired
  category mutes" (the persisting of both to the store is not modelled).\<close>

definition clearExpiredMute :: "int \<Rightarrow> bot \<Rightarrow> bot" where
  "clearExpiredMute now b =
     (if truthyNum (muteUntil b) \<and> now \<ge> the (muteUntil b)
      then b\<lparr> isMuted := False, muteUntil := None \<rparr> else b)"

definition clearExpiredCategoryMutes :: "int \<Rightarrow> bot \<Rightarrow> bot" where
  "clearExpiredCategoryMutes now b =
     b\<lparr> categoryMutes := (\<lambda>cat. case categoryMutes b cat of
          None \<Rightarrow> None
        | Some muteTime \<Rightarrow> if now \<ge> muteTime then None else Some muteTime) \<rparr>"

text \<open>"Add to alert history" and "Keep only last 100 alerts": \<open>push\<close>, then one \<open>shift\<close>
  when the length exceeds 100.\<close>

definition pushHistory :: "history_entry \<Rightarrow> bot \<Rightarrow> bot" where
  "pushHistory e b =
     (let h = alertHistory b @ [e]
      in b\<lparr> alertHistory := (if length h > 100 then tl h else h) \<rparr>)"

definition upperName :: "severity \<Rightarrow> string" where
  "upperName ty = (case ty of Info \<Rightarrow> ''INFO'' | Warning \<Rightarrow> ''WARNING'' | Critical \<Rightarrow> ''CRITICAL'')"

definition sendAlert ::
  "dispatch_config \<Rightarrow> int \<Rightarrow> severity \<Rightarrow> string \<Rightarrow> string option \<Rightarrow> bot \<Rightarrow> bot \<times> outcome" where
  "sendAlert cfg now ty message category b0 =
     (let alertKey = GenericKey ty message;
          lastAlert = lastAlertOf b0 alertKey;
          b1 = clearExpiredCategoryMutes now (clearExpiredMute now b0)
      in if now - lastAlert < alertCooldown cfg then (b1, SuppressedCooldown)
         else
           let b2 = pushHistory \<lparr> h_timestamp = now, h_type = historyType ty message,
                      h_message = message, h_severity = ty \<rparr> b1;
               b3 = b2\<lparr> lastAlertTime := (lastAlertTime b2)(alertKey \<mapsto> now) \<rparr>
           in if isMuted b3 \<and> truthyNum (muteUntil b3) \<and> now < the (muteUntil b3)
              then (b3, SuppressedGlobalMute)
              else if truthyStr category \<and> categoryMutes b3 (the category) \<noteq> None
                      \<and> now < the (categoryMutes b3 (the category))
              then (b3, SuppressedCategoryMute)
              else (b3, Sent \<lparr> n_heading = upperName ty,
                                 n_muteButton = (if truthyStr category then the category
                                                 else severityName ty),
                                 n_body = GenericBody message \<rparr>))"

text \<open>\<open>sendResourceAlert\<close>: cooldown keyed by type and threshold; no mute check, no history.
  The heading is \<open>CRITICAL\<close> when \<open>value >= threshold * 1.2\<close>, else \<open>WARNING\<close>.\<close>

definition resourceSeverityText :: "dispatch_config \<Rightarrow> real \<Rightarrow> real \<Rightarrow> string" where
  "resourceSeverityText cfg v threshold =
     (if v \<ge> timesOnePointTwo cfg threshold then ''CRITICAL'' else ''WARNING'')"

definition sendResourceAlert ::
  "dispatch_config \<Rightarrow> int \<Rightarrow> resource_type \<Rightarrow> real \<Rightarrow> real \<Rightarrow> bot \<Rightarrow> bot \<times> outcome" where
  "sendResourceAlert cfg now ty v threshold b =
     (let alertKey = ResourceKey ty threshold;
          lastAlert = lastAlertOf b alertKey
      in if now - lastAlert < alertCooldown cfg then (b, SuppressedCooldown)
         else (b\<lparr> lastAlertTime := (lastAlertTime b)(alertKey \<mapsto> now) \<rparr>,
               Sent \<lparr> n_heading = resourceSeverityText cfg v threshold,
                      n_muteButton = ''resource_'' @ resourceName ty,
                      n_body = ResourceBody ty v threshold \<rparr>))"

text \<open>\<open>sendPerformanceAlert\<close>: cooldown keyed by the type alone; the heading is the constant
  \<open>PERFORMANCE DEGRADATION\<close>.\<close>

definition sendPerformanceAlert ::
  "dispatch_config \<Rightarrow> int \<Rightarrow> performance_type \<Rightarrow> real \<Rightarrow> real \<Rightarrow> bot \<Rightarrow> bot \<times> outcome" where
  "sendPerformanceAlert cfg now ty current threshold b =
     (let alertKey = PerformanceKey ty;
          lastAlert = lastAlertOf b alertKey
      in if now - lastAlert < alertCooldown cfg then (b, SuppressedCooldown)
         else (b\<lparr> lastAlertTime := (lastAlertTime b)(alertKey \<mapsto> now) \<rparr>,
               Sent \<lparr> n_heading = ''PERFORMANCE DEGRADATION'',
                      n_muteButton = ''performance_'' @ performanceName ty,
                      n_body = PerformanceBody ty current threshold \<rparr>))"

text \<open>\<open>sendObserverAlert\<close>: cooldown keyed by the type alone.\<close>

definition sendObserverAlert ::
  "dispatch_config \<Rightarrow> int \<Rightarrow> observer_alert_type \<Rightarrow> observer_details \<Rightarrow> bot \<Rightarrow> bot \<times> outcome" where
  "sendObserverAlert cfg now ty details b =
     (let alertKey = ObserverKey ty;
          lastAlert = lastAlertOf b alertKey
      in if now - lastAlert < alertCooldown cfg then (b, SuppressedCooldown)
         else (b\<lparr> lastAlertTime := (lastAlertTime b)(alertKey \<mapsto> now) \<rparr>,
               Sent \<lparr> n_heading = (if ty = ReportFailed then ''CRITICAL'' else ''WARNING''),
                      n_muteButton = ''observer_'' @ observerAlertName ty,
                      n_body = ObserverBody ty details \<rparr>))"

text \<open>
  \<open>sendGatewayChangeAlert\<close>. \<open>statusTarget\<close> is the lower-cased, trimmed text after the arrow
  of the first entry of \<open>change.changes\<close> that starts with \<open>status:\<close>, when there is one.
  The window is the literal \<open>300000\<close> ("Don't send duplicate alerts within 5 minutes").
\<close>

record gateway_change =
  g_type :: string
  g_address :: string
  g_statusTarget :: "string option"

definition gatewayEventType :: "gateway_change \<Rightarrow> string" where
  "gatewayEventType change =
     (if g_type change = ''left'' \<or> g_statusTarget change = Some ''left''
      then ''left'' else g_type change)"

definition gatewayHeading :: "string \<Rightarrow> string" where
  "gatewayHeading eventType =
     ''GATEWAY '' @ (if eventType = ''joined'' then ''JOINED''
                     else if eventType = ''left'' then ''LEFT'' else ''UPDATED'')"

definition sendGatewayChangeAlert :: "int \<Rightarrow> gateway_change \<Rightarrow> bot \<Rightarrow> bot \<times> outcome" where
  "sendGatewayChangeAlert now change b =
     (let eventType = gatewayEventType change;
          alertKey = GatewayKey eventType (g_address change);
          lastAlert = lastAlertOf b alertKey
      in if now - lastAlert < 300000 then (b, SuppressedCooldown)
         else (b\<lparr> lastAlertTime := (lastAlertTime b)(alertKey \<mapsto> now) \<rparr>,
               Sent \<lparr> n_heading = gatewayHeading eventType,
                      n_muteButton = ''gateway_'' @ eventType,
                      n_body = GatewayBody eventType (g_address change) \<rparr>))"

text \<open>\<open>sendArnsChangeAlert\<close>: the same literal window of \<open>300000\<close>.\<close>

definition sendArnsChangeAlert :: "int \<Rightarrow> string \<Rightarrow> string \<Rightarrow> bot \<Rightarrow> bot \<times> outcome" where
  "sendArnsChangeAlert now changeType name b =
     (let alertKey = ArnsKey changeType name;
          lastAlert = lastAlertOf b alertKey
      in if now - lastAlert < 300000 then (b, SuppressedCooldown)
         else (b\<lparr> lastAlertTime := (lastAlertTime b)(alertKey \<mapsto> now) \<rparr>,
               Sent \<lparr> n_heading = ''ArNS '' @ (if changeType = ''permabuy'' then ''PERMABUY'' else ''LEASE''),
                      n_muteButton = ''arns_'' @ changeType,
                      n_body = ArnsBody changeType name \<rparr>))"

subsection \<open>The senders as one dispatch operation\<close>

text \<open>What a monitor asks of the bot. The dispatcher reads the clock itself, so the time
  of the call is an argument of \<open>dispatch\<close>, not of the call.\<close>

datatype call =
    SendAlert severity string "string option"
  | SendResourceAlert resource_type real real
  | SendPerformanceAlert performance_type real real
  | SendObserverAlert observer_alert_type observer_details
  | SendGatewayChangeAlert gateway_change
  | SendArnsChangeAlert string string

fun dispatch :: "dispatch_config \<Rightarrow> int \<Rightarrow> call \<Rightarrow> bot \<Rightarrow> bot \<times> outcome" where
  "dispatch cfg now (SendAlert ty message category) b = sendAlert cfg now ty message category b"
| "dispatch cfg now (SendResourceAlert ty v threshold) b = sendResourceAlert cfg now ty v threshold b"
| "dispatch cfg now (SendPerformanceAlert ty current threshold) b =
     sendPerformanceAlert cfg now ty current threshold b"
| "dispatch cfg now (SendObserverAlert ty details) b = sendObserverAlert cfg now ty details b"
| "dispatch cfg now (SendGatewayChangeAlert change) b = sendGatewayChangeAlert now change b"
| "dispatch cfg now (SendArnsChangeAlert changeType name) b = sendArnsChangeAlert now changeType name b"

text \<open>The key under which each sender looks up and stores the time of the last alert, and
  the window it compares with.\<close>

fun keyOf :: "call \<Rightarrow> alert_key" where
  "keyOf (SendAlert ty message category) = GenericKey ty message"
| "keyOf (SendResourceAlert ty v threshold) = ResourceKey ty threshold"
| "keyOf (SendPerformanceAlert ty current threshold) = PerformanceKey ty"
| "keyOf (SendObserverAlert ty details) = ObserverKey ty"
| "keyOf (SendGatewayChangeAlert change) = GatewayKey (gatewayEventType change) (g_address change)"
| "keyOf (SendArnsChangeAlert changeType name) = ArnsKey changeType name"

fun isNetworkChange :: "call \<Rightarrow> bool" where
  "isNetworkChange (SendGatewayChangeAlert change) = True"
| "isNetworkChange (SendArnsChangeAlert changeType name) = True"
| "isNetworkChange c = False"

fun isGeneric :: "call \<Rightarrow> bool" where
  "isGeneric (SendAlert ty message category) = True"
| "isGeneric c = False"

subsection \<open>Operator actions on the mute state\<close>

text \<open>\<open>setMute\<close> (the \<open>switch\<close> on the duration), \<open>handleUnmute\<close>, and the three category
  actions \<open>mute_cat\<close> (\<open>None\<close> is the duration \<open>infinite\<close>, \<open>Some ms\<close> a duration that
  \<open>parseInt\<close> reads as \<open>ms\<close>), \<open>unmute_cat\<close> and \<open>unmute_all_cats\<close>.\<close>

definition setMute :: "int \<Rightarrow> string \<Rightarrow> bot \<Rightarrow> bot" where
  "setMute now duration b =
     (if duration = ''1h'' then b\<lparr> isMuted := True, muteUntil := Some (now + 60 * 60 * 1000) \<rparr>
      else if duration = ''6h'' then b\<lparr> isMuted := True, muteUntil := Some (now + 6 * 60 * 60 * 1000) \<rparr>
      else if duration = ''24h'' then b\<lparr> isMuted := True, muteUntil := Some (now + 24 * 60 * 60 * 1000) \<rparr>
      else if duration = ''unmute'' then b\<lparr> isMuted := False, muteUntil := None \<rparr>
      else b)"

definition handleUnmute :: "bot \<Rightarrow> bot" where
  "handleUnmute b = b\<lparr> isMuted := False, muteUntil := None \<rparr>"

definition muteCategory :: "int \<Rightarrow> string \<Rightarrow> int option \<Rightarrow> bot \<Rightarrow> bot" where
  "muteCategory now category duration b =
     (case duration of
        None \<Rightarrow> b\<lparr> categoryMutes := (categoryMutes b)(category \<mapsto> now + 315360000000) \<rparr>
      | Some ms \<Rightarrow> b\<lparr> categoryMutes := (categoryMutes b)(category \<mapsto> now + ms) \<rparr>)"

definition unmuteCategory :: "string \<Rightarrow> bot \<Rightarrow> bot" where
  "unmuteCategory category b = b\<lparr> categoryMutes := (categoryMutes b)(category := None) \<rparr>"

definition unmuteAllCategories :: "bot \<Rightarrow> bot" where
  "unmuteAllCategories b = b\<lparr> categoryMutes := Map.empty \<rparr>"

datatype event =
    Dispatch int call
  | SetMute int string
  | Unmute
  | MuteCategory int string "int option"
  | UnmuteCategory string
  | UnmuteAllCategories

fun step :: "dispatch_config \<Rightarrow> event \<Rightarrow> bot \<Rightarrow> bot" where
  "step cfg (Dispatch now c) b = fst (dispatch cfg now c b)"
| "step cfg (SetMute now duration) b = setMute now duration b"
| "step cfg Unmute b = handleUnmute b"
| "step cfg (MuteCategory now category duration) b = muteCategory now category duration b"
| "step cfg (UnmuteCategory category) b = unmuteCategory category b"
| "step cfg UnmuteAllCategories b = unmuteAllCategories b"

fun run :: "dispatch_config \<Rightarrow> event list \<Rightarrow> bot \<Rightarrow> bot" where
  "run cfg [] b = b"
| "run cfg (e # es) b = run cfg es (step cfg e b)"

section \<open>Resource monitoring (\<open>MonitoringBot.startResourceMonitoring\<close>, \<open>checkResources\<close>)\<close>

text \<open>\<open>config.alerts\<close>, as far as the resource and observer checks read it, and the double
  result of \<open>(errors / requests) * 100\<close> as the runtime computes it.\<close>

record alerts_config =
  cpuThreshold :: real
  cpuDurationMinutes :: int
  memoryThreshold :: real
  diskThreshold :: real
  responseTimeThreshold :: real
  blockSyncLagThreshold :: int
  arnsCacheHitRateThreshold :: real
  errorRateThreshold :: real
  errorRateMinRequests :: int
  notSelectedEpochsThreshold :: int
  lowObserverWeightThreshold :: real
  ratePercent :: "int \<Rightarrow> int \<Rightarrow> real"

text \<open>\<open>DetailedMetrics\<close>: every field is optional (\<open>None\<close> is \<open>undefined\<close>). Counters and
  block heights are integers, gauges are reals.\<close>

record metrics =
  lastHeightImported :: "int option"
  currentNetworkHeight :: "int option"
  heightDifference :: "int option"
  cpuUsagePercent :: "real option"
  memoryUsagePercent :: "real option"
  diskUsagePercent :: "real option"
  averageResponseTimeMs :: "real option"
  arnsResolutions :: "int option"
  arnsCacheHitRate :: "real option"
  arnsErrors :: "int option"
  httpRequestsTotal :: "int option"

record cpu_sample =
  c_value :: real
  c_timestamp :: int

record error_sample =
  e_errors :: int
  e_requests :: int
  e_timestamp :: int

record previous_metrics =
  p_timestamp :: int
  p_blockHeight :: "int option"
  p_arnsResolutions :: "int option"
  p_errors :: "int option"
  p_totalRequests :: "int option"

text \<open>The sustained-CPU block. The sample is pushed, the history is pruned to the last ten
  minutes (exclusive bound), and the alert is requested when the three conditions of the
  \<open>if\<close> hold.\<close>

definition pruneCpuHistory :: "int \<Rightarrow> real \<Rightarrow> cpu_sample list \<Rightarrow> cpu_sample list" where
  "pruneCpuHistory now cpu hist =
     (let pushed = hist @ [\<lparr> c_value = cpu, c_timestamp = now \<rparr>];
          tenMinutesAgo = now - 10 * 60 * 1000
      in filter (\<lambda>h. c_timestamp h > tenMinutesAgo) pushed)"

definition samplesInWindow :: "alerts_config \<Rightarrow> int \<Rightarrow> cpu_sample list \<Rightarrow> cpu_sample list" where
  "samplesInWindow cfg now hist =
     (let durationMs = cpuDurationMinutes cfg * 60 * 1000;
          cutoffTime = now - durationMs
      in filter (\<lambda>h. c_timestamp h \<ge> cutoffTime) hist)"

definition recentHighCpu :: "alerts_config \<Rightarrow> int \<Rightarrow> cpu_sample list \<Rightarrow> cpu_sample list" where
  "recentHighCpu cfg now hist =
     (let durationMs = cpuDurationMinutes cfg * 60 * 1000;
          cutoffTime = now - durationMs
      in filter (\<lambda>h. c_timestamp h \<ge> cutoffTime \<and> c_value h \<ge> cpuThreshold cfg) hist)"

definition cpuAlertFires :: "alerts_config \<Rightarrow> int \<Rightarrow> real \<Rightarrow> cpu_sample list \<Rightarrow> bool" where
  "cpuAlertFires cfg now cpu hist =
     (let hist' = pruneCpuHistory now cpu hist
      in int (length (samplesInWindow cfg now hist')) \<ge> cpuDurationMinutes cfg
         \<and> length (recentHighCpu cfg now hist') = length (samplesInWindow cfg now hist')
         \<and> cpu \<ge> cpuThreshold cfg)"

definition checkCpu :: "alerts_config \<Rightarrow> int \<Rightarrow> real \<Rightarrow> cpu_sample list \<Rightarrow> cpu_sample list \<times> call list" where
  "checkCpu cfg now cpu hist =
     (pruneCpuHistory now cpu hist,
      if cpuAlertFires cfg now cpu hist then [SendResourceAlert Cpu cpu (cpuThreshold cfg)] else [])"

text \<open>Memory, disk and response time: one comparison each, \<open>>=\<close>.\<close>

definition checkGauge :: "resource_type \<Rightarrow> real option \<Rightarrow> real \<Rightarrow> call list" where
  "checkGauge ty v threshold =
     (case v of None \<Rightarrow> []
      | Some x \<Rightarrow> if x \<ge> threshold then [SendResourceAlert ty x threshold] else [])"

text \<open>Block-sync lag: \<open>heightDifference > blockSyncLagThreshold\<close>, sent as a performance alert.\<close>

definition checkBlockSync :: "alerts_config \<Rightarrow> metrics \<Rightarrow> call list" where
  "checkBlockSync cfg m =
     (case heightDifference m of None \<Rightarrow> []
      | Some d \<Rightarrow> if d > blockSyncLagThreshold cfg
                  then [SendPerformanceAlert BlockSync (real_of_int d) (real_of_int (blockSyncLagThreshold cfg))]
                  else [])"

text \<open>ArNS cache hit rate: fires when the rate is below the threshold.\<close>

definition checkArnsCache :: "alerts_config \<Rightarrow> metrics \<Rightarrow> call list" where
  "checkArnsCache cfg m =
     (case arnsCacheHitRate m of None \<Rightarrow> []
      | Some r \<Rightarrow> if r < arnsCacheHitRateThreshold cfg
                  then [SendPerformanceAlert ArnsCache r (arnsCacheHitRateThreshold cfg)]
                  else [])"

text \<open>
  The error-rate block, entered when there are previous metrics and both counters are
  defined. \<open>prevErrors\<close> and \<open>prevRequests\<close> are \<open>this.previousMetrics.errors || 0\<close> and
  \<open>this.previousMetrics.totalRequests || 0\<close>. The \<open>reduce\<close> over the window is \<open>aggregate\<close>.
\<close>

definition orZero :: "int option \<Rightarrow> int" where
  "orZero v = (case v of None \<Rightarrow> 0 | Some n \<Rightarrow> n)"

text \<open>
  How \<open>HealthMonitor.fetchPrometheusMetrics\<close> (src/monitors/health.ts) fills the two counters
  from the raw Prometheus values: \<open>arnsErrors\<close> is
  \<open>(raw['get_data_errors_total'] || 0) || undefined\<close> and \<open>httpRequestsTotal\<close> is the sum of
  \<open>raw['data_items_indexed_total'] || 0\<close> and \<open>raw['bundles_total'] || 0\<close>, again with
  \<open>|| undefined\<close>. A counter at 0 is handed over as \<open>undefined\<close>.
\<close>

definition orUndefined :: "int \<Rightarrow> int option" where
  "orUndefined n = (if n = 0 then None else Some n)"

definition fetchedErrors :: "int option \<Rightarrow> int option" where
  "fetchedErrors getDataErrorsTotal = orUndefined (orZero getDataErrorsTotal)"

definition fetchedRequests :: "int option \<Rightarrow> int option \<Rightarrow> int option" where
  "fetchedRequests dataItemsIndexedTotal bundlesTotal =
     orUndefined (orZero dataItemsIndexedTotal + orZero bundlesTotal)"

definition aggregate :: "error_sample list \<Rightarrow> int \<times> int" where
  "aggregate hist =
     foldl (\<lambda>acc sample. (fst acc + e_errors sample, snd acc + e_requests sample)) (0, 0) hist"

definition clearOnReset :: "int \<Rightarrow> int \<Rightarrow> error_sample list \<Rightarrow> error_sample list" where
  "clearOnReset rawErrorsDelta rawRequestsDelta hist =
     (if rawErrorsDelta < 0 \<or> rawRequestsDelta < 0 then [] else hist)"

definition errorRateWindow ::
  "int \<Rightarrow> int \<Rightarrow> int \<Rightarrow> int \<Rightarrow> int \<Rightarrow> error_sample list \<Rightarrow> error_sample list" where
  "errorRateWindow now prevErrors prevRequests errors requests hist =
     (let rawErrorsDelta = errors - prevErrors;
          rawRequestsDelta = requests - prevRequests;
          cleared = clearOnReset rawErrorsDelta rawRequestsDelta hist;
          errorsDelta = max rawErrorsDelta 0;
          requestsDelta = max rawRequestsDelta 0
      in if requestsDelta > 0
         then let pushed = cleared @ [\<lparr> e_errors = errorsDelta, e_requests = requestsDelta,
                                           e_timestamp = now \<rparr>];
                  smoothingWindowMs = 10 * 60 * 1000;
                  windowStart = now - smoothingWindowMs
              in filter (\<lambda>sample. e_timestamp sample \<ge> windowStart) pushed
         else cleared)"

definition smoothedErrorRate :: "alerts_config \<Rightarrow> error_sample list \<Rightarrow> real" where
  "smoothedErrorRate cfg hist = ratePercent cfg (fst (aggregate hist)) (snd (aggregate hist))"

definition checkErrorRate ::
  "alerts_config \<Rightarrow> int \<Rightarrow> int \<Rightarrow> int \<Rightarrow> int \<Rightarrow> int \<Rightarrow> error_sample list
     \<Rightarrow> error_sample list \<times> call list" where
  "checkErrorRate cfg now prevErrors prevRequests errors requests hist =
     (let hist' = errorRateWindow now prevErrors prevRequests errors requests hist;
          requestsDelta = max (requests - prevRequests) 0
      in (hist',
          if requestsDelta > 0
             \<and> snd (aggregate hist') \<ge> errorRateMinRequests cfg \<and> snd (aggregate hist') > 0
             \<and> smoothedErrorRate cfg hist' > errorRateThreshold cfg
          then [SendPerformanceAlert ErrorRate (smoothedErrorRate cfg hist') (errorRateThreshold cfg)]
          else []))"

text \<open>The state of \<open>MonitoringBot\<close> that the resource check owns.\<close>

record resource_state =
  cpuHistory :: "cpu_sample list"
  previousMetrics :: "previous_metrics option"
  errorRateHistory :: "error_sample list"

definition initialResourceState :: resource_state where
  "initialResourceState = \<lparr> cpuHistory = [], previousMetrics = None, errorRateHistory = [] \<rparr>"

text \<open>One run of \<open>checkResources\<close> with the metrics that \<open>getMetrics\<close> returned at time
  \<open>now\<close>: the new state and the alerts requested from the bot, in the order of the source.\<close>

definition checkResources ::
  "alerts_config \<Rightarrow> int \<Rightarrow> metrics \<Rightarrow> resource_state \<Rightarrow> resource_state \<times> call list" where
  "checkResources cfg now m s =
     (let (cpuHist, cpuCalls) =
            (case cpuUsagePercent m of None \<Rightarrow> (cpuHistory s, [])
             | Some cpu \<Rightarrow> checkCpu cfg now cpu (cpuHistory s));
          memoryCalls = checkGauge Memory (memoryUsagePercent m) (memoryThreshold cfg);
          diskCalls = checkGauge Disk (diskUsagePercent m) (diskThreshold cfg);
          responseCalls = checkGauge ResponseTime (averageResponseTimeMs m) (responseTimeThreshold cfg);
          blockCalls = checkBlockSync cfg m;
          cacheCalls = checkArnsCache cfg m;
          (errHist, errCalls) =
            (case (previousMetrics s, arnsErrors m, httpRequestsTotal m) of
               (Some prev, Some errors, Some requests) \<Rightarrow>
                 checkErrorRate cfg now (orZero (p_errors prev)) (orZero (p_totalRequests prev))
                   errors requests (errorRateHistory s)
             | _ \<Rightarrow> (errorRateHistory s, []))
      in (\<lparr> cpuHistory = cpuHist,
            previousMetrics = Some \<lparr> p_timestamp = now, p_blockHeight = lastHeightImported m,
              p_arnsResolutions = arnsResolutions m, p_errors = arnsErrors m,
              p_totalRequests = httpRequestsTotal m \<rparr>,
            errorRateHistory = errHist \<rparr>,
          cpuCalls @ memoryCalls @ diskCalls @ responseCalls @ blockCalls @ cacheCalls @ errCalls))"

text \<open>Successive runs of \<open>checkResources\<close>, one per pair of a time and the metrics fetched.\<close>

fun runResources ::
  "alerts_config \<Rightarrow> (int \<times> metrics) list \<Rightarrow> resource_state \<Rightarrow> resource_state \<times> call list" where
  "runResources cfg [] s = (s, [])"
| "runResources cfg ((now, m) # rest) s =
     (let (s1, calls1) = checkResources cfg now m s;
          (s2, calls2) = runResources cfg rest s1
      in (s2, calls1 @ calls2))"

text \<open>The calls of one kind among the calls of a run.\<close>

fun isCpuCall :: "call \<Rightarrow> bool" where
  "isCpuCall (SendResourceAlert ty v threshold) = (ty = Cpu)"
| "isCpuCall c = False"



section \<open>Observer monitoring (\<open>MonitoringBot.startObserverMonitoring\<close>, \<open>checkObserver\<close>)\<close>

subsection \<open>Formatting of the epoch messages\<close>

text \<open>Decimal rendering of an integer in a template string.\<close>

fun showNat :: "nat \<Rightarrow> string" where
  "showNat n = (if n < 10 then [''0123456789'' ! n]
                else showNat (n div 10) @ [''0123456789'' ! (n mod 10)])"

declare showNat.simps [simp del]

definition showInt :: "int \<Rightarrow> string" where
  "showInt i = (if i < 0 then CHR ''-'' # showNat (nat (- i)) else showNat (nat i))"

text \<open>\<open>Date.toLocaleString\<close> and \<open>Number.toFixed\<close> depend on the runtime and its locale; the
  formatting functions take them as a parameter.\<close>

record js_runtime =
  toLocaleString :: "int \<Rightarrow> string"
  toFixed :: "nat \<Rightarrow> real \<Rightarrow> string"

text \<open>The emoji of the messages, as their UTF-8 bytes: rocket, check mark, warning sign.\<close>

definition emojiRocket :: string where
  "emojiRocket = [CHR 0xF0, CHR 0x9F, CHR 0x9A, CHR 0x80]"

definition emojiCheck :: string where
  "emojiCheck = [CHR 0xE2, CHR 0x9C, CHR 0x85]"

definition emojiWarning :: string where
  "emojiWarning = [CHR 0xE2, CHR 0x9A, CHR 0xA0, CHR 0xEF, CHR 0xB8, CHR 0x8F]"

text \<open>\<open>EpochStats\<close>, the fields that \<open>formatEpochChangeMessage\<close> reads. A field the provider
  may leave out is optional.\<close>

record epoch_stats =
  es_epochIndex :: int
  es_startTimestamp :: "int option"
  es_endTimestamp :: "int option"
  es_totalEligibleRewards :: "real option"
  es_totalDistributedRewards :: "real option"
  es_distributionPercentage :: "real option"
  es_observationCount :: "int option"
  es_totalObservers :: "int option"
  es_observationPercentage :: "real option"
  es_gatewaysPassed :: "int option"
  es_gatewaysFailed :: "int option"
  es_passPercentage :: "real option"
  es_failPercentage :: "real option"
  es_isDistributed :: bool

datatype epoch_event = Started | Ended

definition formatDateTime :: "js_runtime \<Rightarrow> int option \<Rightarrow> string" where
  "formatDateTime rt timestamp =
     (if \<not> truthyNum timestamp then ''N/A'' else toLocaleString rt (the timestamp))"

definition formatDuration :: "int option \<Rightarrow> int option \<Rightarrow> string" where
  "formatDuration startTimestamp endTimestamp =
     (if \<not> truthyNum startTimestamp \<or> \<not> truthyNum endTimestamp
         \<or> the endTimestamp \<le> the startTimestamp then ''N/A''
      else let durationMs = the endTimestamp - the startTimestamp;
               durationMinutes = durationMs div 60000;
               hours = durationMinutes div 60;
               minutes = durationMinutes mod 60
           in if hours > 0 then showInt hours @ ''h '' @ showInt minutes @ ''m''
              else showInt minutes @ ''m'')"

text \<open>\<open>lines.join('\n')\<close>\<close>

fun joinLines :: "string list \<Rightarrow> string" where
  "joinLines [] = []"
| "joinLines [l] = l"
| "joinLines (l # ls) = l @ [CHR 0x0A] @ joinLines ls"

definition formatEpochChangeMessage :: "js_runtime \<Rightarrow> epoch_event \<Rightarrow> epoch_stats \<Rightarrow> string" where
  "formatEpochChangeMessage rt event stats =
     (let headerEmoji = (if event = Started then emojiRocket else emojiCheck);
          headerVerb = (if event = Started then ''Started'' else ''Ended'');
          header = [headerEmoji @ '' *Epoch '' @ showInt (es_epochIndex stats) @ '' '' @ headerVerb @ ''*''];
          times = (if event = Started
                   then [''Start: '' @ formatDateTime rt (es_startTimestamp stats),
                         ''Planned End: '' @ formatDateTime rt (es_endTimestamp stats)]
                   else [''Ended: '' @ formatDateTime rt (es_endTimestamp stats),
                         ''Duration: '' @ formatDuration (es_startTimestamp stats) (es_endTimestamp stats)]);
          observers =
            (case (es_totalObservers stats, es_observationCount stats, es_observationPercentage stats) of
               (Some totalObs, Some obsCount, Some pct) \<Rightarrow>
                 [''Reports Submitted: '' @ showInt obsCount @ ''/'' @ showInt totalObs
                    @ '' ('' @ toFixed rt 1 pct @ ''%)'']
             | _ \<Rightarrow> [''Reports Submitted: Data unavailable'']);
          eligible = [''Eligible Rewards: ''
                        @ (case es_totalEligibleRewards stats of None \<Rightarrow> ''N/A'' | Some r \<Rightarrow> toFixed rt 2 r)
                        @ '' ARIO''];
          distribution =
            (if es_isDistributed stats
             then [''Distributed: ''
                     @ (case es_totalDistributedRewards stats of None \<Rightarrow> ''0'' | Some r \<Rightarrow> toFixed rt 2 r)
                     @ '' ARIO (''
                     @ (case es_distributionPercentage stats of None \<Rightarrow> ''0'' | Some r \<Rightarrow> toFixed rt 1 r)
                     @ ''%)'']
                  @ (case (es_gatewaysPassed stats, es_gatewaysFailed stats,
                           es_passPercentage stats, es_failPercentage stats) of
                       (Some passed, Some failed, Some pp, Some fp) \<Rightarrow>
                         [''Pass: '' @ showInt passed @ '' ('' @ toFixed rt 1 pp @ ''%) | Fail: ''
                            @ showInt failed @ '' ('' @ toFixed rt 1 fp @ ''%)'']
                     | _ \<Rightarrow> [])
             else [''Distribution: Pending''])
      in joinLines (header @ times @ ['''', ''*Observers*''] @ observers
                    @ ['''', ''*Rewards*''] @ eligible @ distribution))"

text \<open>The text of the warning sent while the report of the epoch is still missing.\<close>

definition reportMissingMessage :: "int \<Rightarrow> int \<Rightarrow> string" where
  "reportMissingMessage epochIndex hoursRemaining =
     joinLines [emojiWarning @ '' No observation report submitted!'', '''',
       ''Epoch: '' @ showInt epochIndex,
       ''Time remaining: '' @ showInt hoursRemaining @ '' hours'',
       ''Action: Submit observations now!'']"

subsection \<open>The provider boundary\<close>

text \<open>
  \<open>ObserverMonitor.getEpochStats(epochIndex)\<close> asks the SDK for the epoch with that index
  when the index is truthy, and for the current epoch otherwise; it rethrows every failure.
  The SDK's answers are the two fields of the provider (\<open>None\<close>: the call fails).
\<close>

record epoch_provider =
  statsOfEpoch :: "int \<Rightarrow> epoch_stats option"
  statsOfCurrentEpoch :: "epoch_stats option"

definition getEpochStats :: "epoch_provider \<Rightarrow> int \<Rightarrow> epoch_stats option" where
  "getEpochStats p epochIndex =
     (if epochIndex \<noteq> 0 then statsOfEpoch p epochIndex else statsOfCurrentEpoch p)"

text \<open>\<open>ObserverStatus\<close>, as \<open>checkObserverStatus\<close> returns it.\<close>

record observer_status =
  s_epochIndex :: int
  s_isSelectedAsObserver :: bool
  s_observerWeight :: "real option"
  s_epochEndTimestamp :: "int option"
  s_hasSubmittedReport :: "bool option"

subsection \<open>The check\<close>

record observer_check =
  oc_epochIndex :: int
  oc_wasSelected :: bool
  oc_hadReport :: bool

record selection_entry =
  se_epochIndex :: int
  se_selected :: bool
  se_timestamp :: int

record observer_state =
  observerSelectionHistory :: "selection_entry list"
  lastObserverCheck :: "observer_check option"

definition initialObserverState :: observer_state where
  "initialObserverState = \<lparr> observerSelectionHistory = [], lastObserverCheck = None \<rparr>"

text \<open>\<open>this.lastObserverCheck?.epochIndex !== status.epochIndex\<close>: true without a last check.\<close>

definition epochDiffers :: "observer_check option \<Rightarrow> observer_status \<Rightarrow> bool" where
  "epochDiffers lastCheck status =
     (case lastCheck of None \<Rightarrow> True | Some c \<Rightarrow> oc_epochIndex c \<noteq> s_epochIndex status)"

text \<open>The block under \<open>if (epochChanged)\<close>: each of the two alerts sits in a \<open>try\<close> of its own,
  and a failing \<open>getEpochStats\<close> is logged and drops that alert only.\<close>

definition epochChangeCalls ::
  "js_runtime \<Rightarrow> epoch_provider \<Rightarrow> observer_check option \<Rightarrow> observer_status \<Rightarrow> call list" where
  "epochChangeCalls rt p lastCheck status =
     (case lastCheck of
        None \<Rightarrow> []
      | Some c \<Rightarrow>
          let previousEpoch = oc_epochIndex c
          in if s_epochIndex status \<noteq> previousEpoch
             then (case getEpochStats p previousEpoch of
                     None \<Rightarrow> []
                   | Some previousStats \<Rightarrow>
                       [SendAlert Info (formatEpochChangeMessage rt Ended previousStats) (Some ''epoch'')])
                  @ (case getEpochStats p (s_epochIndex status) of
                       None \<Rightarrow> []
                     | Some currentStats \<Rightarrow>
                         [SendAlert Info (formatEpochChangeMessage rt Started currentStats) (Some ''epoch'')])
             else [])"

definition hoursRemaining :: "observer_status \<Rightarrow> int \<Rightarrow> int" where
  "hoursRemaining status now =
     (let timeRemaining = (if truthyNum (s_epochEndTimestamp status)
                           then the (s_epochEndTimestamp status) - now else 0)
      in timeRemaining div 3600000)"

text \<open>The block under \<open>if (status.isSelectedAsObserver && !status.hasSubmittedReport)\<close>.\<close>

definition reportCalls :: "observer_check option \<Rightarrow> observer_status \<Rightarrow> int \<Rightarrow> call list" where
  "reportCalls lastCheck status now =
     (if s_isSelectedAsObserver status \<and> s_hasSubmittedReport status \<noteq> Some True
      then let h = hoursRemaining status now
           in (if h < 12 \<and> h > 0
               then [SendAlert Warning (reportMissingMessage (s_epochIndex status) h) (Some ''observer_report'')]
               else [])
              @ (if h \<le> 0 \<and> epochDiffers lastCheck status
                 then [SendObserverAlert ReportFailed
                         \<lparr> d_value = None, d_threshold = None, d_epochIndex = Some (s_epochIndex status) \<rparr>]
                 else [])
      else [])"

text \<open>\<open>history.slice(-n)\<close>: the last \<open>n\<close> entries for a positive \<open>n\<close>; for \<open>n \<le> 0\<close> the
  argument is a non-negative start index.\<close>

definition sliceLast :: "int \<Rightarrow> 'a list \<Rightarrow> 'a list" where
  "sliceLast n xs = (if n > 0 then drop (length xs - nat n) xs else drop (nat (- n)) xs)"

text \<open>
  The selection-history block: the new history, the alert requested, and whether the block
  throws (\<open>recentHistory[0].epochIndex\<close> on an empty \<open>recentHistory\<close>, which a negative
  threshold allows).
\<close>

definition selectionStep ::
  "alerts_config \<Rightarrow> observer_check option \<Rightarrow> observer_status \<Rightarrow> int \<Rightarrow> selection_entry list
     \<Rightarrow> selection_entry list \<times> call list \<times> bool" where
  "selectionStep cfg lastCheck status now hist =
     (if epochDiffers lastCheck status
      then let pushed = hist @ [\<lparr> se_epochIndex = s_epochIndex status,
                                   se_selected = s_isSelectedAsObserver status,
                                   se_timestamp = now \<rparr>];
               capped = (if length pushed > 20 then tl pushed else pushed);
               threshold = notSelectedEpochsThreshold cfg;
               recentHistory = sliceLast threshold capped
           in if int (length recentHistory) \<ge> threshold \<and> list_all (\<lambda>h. \<not> se_selected h) recentHistory
              then (case recentHistory of
                      [] \<Rightarrow> (capped, [], True)
                    | first # rest \<Rightarrow>
                        (capped,
                         [SendObserverAlert NotSelected
                            \<lparr> d_value = Some (real_of_int threshold),
                              d_threshold = Some (real_of_int threshold), d_epochIndex = None \<rparr>],
                         False))
              else (capped, [], False)
      else (hist, [], False))"

definition lowWeightCalls :: "alerts_config \<Rightarrow> observer_status \<Rightarrow> call list" where
  "lowWeightCalls cfg status =
     (case s_observerWeight status of
        None \<Rightarrow> []
      | Some w \<Rightarrow> if w < lowObserverWeightThreshold cfg
                  then [SendObserverAlert LowWeight
                          \<lparr> d_value = Some w, d_threshold = Some (lowObserverWeightThreshold cfg),
                            d_epochIndex = None \<rparr>]
                  else [])"

text \<open>One run of \<open>checkObserver\<close> with the status fetched at time \<open>now\<close>. When the
  selection block throws, the outer \<open>catch\<close> ends the run: the low-weight check and the
  update of \<open>lastObserverCheck\<close> are skipped.\<close>

definition checkObserver ::
  "alerts_config \<Rightarrow> js_runtime \<Rightarrow> epoch_provider \<Rightarrow> int \<Rightarrow> observer_status \<Rightarrow> observer_state
     \<Rightarrow> observer_state \<times> call list" where
  "checkObserver cfg rt p now status s =
     (let lastCheck = lastObserverCheck s;
          epochCalls = epochChangeCalls rt p lastCheck status;
          repCalls = reportCalls lastCheck status now;
          (hist, selCalls, threw) = selectionStep cfg lastCheck status now (observerSelectionHistory s)
      in if threw
         then (s\<lparr> observerSelectionHistory := hist \<rparr>, epochCalls @ repCalls)
         else (\<lparr> observerSelectionHistory = hist,
                 lastObserverCheck = Some \<lparr> oc_epochIndex = s_epochIndex status,
                   oc_wasSelected = s_isSelectedAsObserver status,
                   oc_hadReport = (s_hasSubmittedReport status = Some True) \<rparr> \<rparr>,
               epochCalls @ repCalls @ selCalls @ lowWeightCalls cfg status))"

text \<open>Successive polls, one per pair of a time and the status fetched; the calls of each
  poll are kept apart.\<close>

fun runObserver ::
  "alerts_config \<Rightarrow> js_runtime \<Rightarrow> epoch_provider \<Rightarrow> (int \<times> observer_status) list \<Rightarrow> observer_state
     \<Rightarrow> observer_state \<times> call list list" where
  "runObserver cfg rt p [] s = (s, [])"
| "runObserver cfg rt p ((now, status) # rest) s =
     (let (s1, calls1) = checkObserver cfg rt p now status s;
          (s2, calls2) = runObserver cfg rt p rest s1
      in (s2, calls1 # calls2))"

fun isReportFailed :: "call \<Rightarrow> bool" where
  "isReportFailed (SendObserverAlert ty details) = (ty = ReportFailed)"
| "isReportFailed c = False"

fun isInfoAlert :: "call \<Rightarrow> bool" where
  "isInfoAlert (SendAlert ty message category) = (ty = Info)"
| "isInfoAlert c = False"

section \<open>Concrete configurations and inputs\<close>

text \<open>
  The double results on the inputs of the examples below. \<open>t * 1.2\<close> is exact at the
  thresholds 80, 90 and 2000 (96, 108, 2400); at the threshold 3 it is
  2026619832316723 / 2^49 (printed 3.5999999999999996), below 3.6. \<open>(e / r) * 100\<close> is
  exact for 0/100, 5/100, 8/200, 4/200 and 12/300; for 7/100 it is 7881299347898369 / 2^50 (printed
  7.000000000000001), above 7. No other input is used.
\<close>

definition doubleTimesOnePointTwo :: "real \<Rightarrow> real" where
  "doubleTimesOnePointTwo t = (if t = 3 then 2026619832316723 / 2 ^ 49 else t * (12 / 10))"

definition doubleRatePercent :: "int \<Rightarrow> int \<Rightarrow> real" where
  "doubleRatePercent e r =
     (if e = 7 \<and> r = 100 then 7881299347898369 / 2 ^ 50
      else real_of_int e / real_of_int r * 100)"

text \<open>The defaults of the configuration loader: \<open>ALERT_COOLDOWN\<close> of 600 seconds, and the
  thresholds of \<open>config.alerts\<close>.\<close>

definition defaultDispatch :: dispatch_config where
  "defaultDispatch = \<lparr> alertCooldown = 600000, timesOnePointTwo = doubleTimesOnePointTwo \<rparr>"

definition defaultAlerts :: alerts_config where
  "defaultAlerts = \<lparr> cpuThreshold = 80, cpuDurationMinutes = 5, memoryThreshold = 90,
     diskThreshold = 85, responseTimeThreshold = 2000, blockSyncLagThreshold = 100,
     arnsCacheHitRateThreshold = 50, errorRateThreshold = 5, errorRateMinRequests = 100,
     notSelectedEpochsThreshold = 5, lowObserverWeightThreshold = 1 / 2,
     ratePercent = doubleRatePercent \<rparr>"

text \<open>A time of day in milliseconds since the epoch, as \<open>Date.now()\<close> returns it.\<close>

definition t0 :: int where
  "t0 = 1700000000000"

text \<open>The bot one minute after the operator muted all alerts for one hour, and the bot after
  the operator pressed the mute button of a CPU alert and chose "Until unmute".\<close>

definition mutedBot :: bot where
  "mutedBot = setMute (t0 - 60000) ''1h'' initialBot"

definition cpuMutedBot :: bot where
  "cpuMutedBot = muteCategory (t0 - 60000) ''resource_cpu'' None initialBot"

text \<open>A bot whose alert history is full.\<close>

definition oldEntry :: history_entry where
  "oldEntry = \<lparr> h_timestamp = 0, h_type = ''old'', h_message = ''old'', h_severity = Info \<rparr>"

definition fullBot :: bot where
  "fullBot = initialBot\<lparr> alertHistory := replicate 100 oldEntry \<rparr>"

definition gatewayJoined :: gateway_change where
  "gatewayJoined = \<lparr> g_type = ''joined'', g_address = ''gateway-address'', g_statusTarget = None \<rparr>"

text \<open>The muted bot after \<open>sendAlert\<close> was asked for a critical alert at \<open>t0\<close>.\<close>

definition afterMutedAlert :: bot where
  "afterMutedAlert = fst (sendAlert defaultDispatch t0 Critical ''Core service is DOWN''
     (Some ''service_health'') mutedBot)"

text \<open>Metrics with no field defined, and metrics that define one gauge or the two counters.\<close>

definition noMetrics :: metrics where
  "noMetrics = \<lparr> lastHeightImported = None, currentNetworkHeight = None, heightDifference = None,
     cpuUsagePercent = None, memoryUsagePercent = None, diskUsagePercent = None,
     averageResponseTimeMs = None, arnsResolutions = None, arnsCacheHitRate = None,
     arnsErrors = None, httpRequestsTotal = None \<rparr>"

definition cpuMetrics :: "real \<Rightarrow> metrics" where
  "cpuMetrics c = noMetrics\<lparr> cpuUsagePercent := Some c \<rparr>"



text \<open>The CPU history after four one-per-minute samples above the threshold of 80, and the same
  history with the second sample below it.\<close>

definition fourHighSamples :: resource_state where
  "fourHighSamples = initialResourceState\<lparr> cpuHistory :=
     [\<lparr> c_value = 85, c_timestamp = 0 \<rparr>, \<lparr> c_value = 86, c_timestamp = 60000 \<rparr>,
      \<lparr> c_value = 84, c_timestamp = 120000 \<rparr>, \<lparr> c_value = 90, c_timestamp = 180000 \<rparr>] \<rparr>"

definition oneLowSample :: resource_state where
  "oneLowSample = initialResourceState\<lparr> cpuHistory :=
     [\<lparr> c_value = 85, c_timestamp = 0 \<rparr>, \<lparr> c_value = 79, c_timestamp = 60000 \<rparr>,
      \<lparr> c_value = 84, c_timestamp = 120000 \<rparr>, \<lparr> c_value = 90, c_timestamp = 180000 \<rparr>] \<rparr>"


definition lastCounters :: previous_metrics where
  "lastCounters = \<lparr> p_timestamp = 120000, p_blockHeight = None, p_arnsResolutions = None,
     p_errors = Some 18, p_totalRequests = Some 1200 \<rparr>"

definition beforeReset :: resource_state where
  "beforeReset = \<lparr> cpuHistory = [], previousMetrics = Some lastCounters,
     errorRateHistory = [\<lparr> e_errors = 5, e_requests = 100, e_timestamp = 60000 \<rparr>,
                         \<lparr> e_errors = 3, e_requests = 100, e_timestamp = 120000 \<rparr>] \<rparr>"



text \<open>The metrics that \<open>fetchPrometheusMetrics\<close> builds from the raw counters, and two polls after
  \<open>beforeReset\<close>: the provider has restarted and all raw counters are 0, then the errors counter
  is at 4 and 100 data items are indexed.\<close>

definition fetchedMetrics :: "int option \<Rightarrow> int option \<Rightarrow> int option \<Rightarrow> metrics" where
  "fetchedMetrics getDataErrorsTotal dataItemsIndexedTotal bundlesTotal =
     noMetrics\<lparr> arnsErrors := fetchedErrors getDataErrorsTotal,
       httpRequestsTotal := fetchedRequests dataItemsIndexedTotal bundlesTotal \<rparr>"

definition restartPolls :: "(int \<times> metrics) list" where
  "restartPolls = [(180000, fetchedMetrics (Some 0) (Some 0) (Some 0)),
     (240000, fetchedMetrics (Some 4) (Some 100) None)]"

text \<open>A runtime that prints a date as its number of milliseconds and a fixed-point number as
  its integer part; providers that know no epoch, every epoch, and epoch 8 only.\<close>

definition plainRuntime :: js_runtime where
  "plainRuntime = \<lparr> toLocaleString = showInt, toFixed = (\<lambda>digits x. showInt (floor x)) \<rparr>"

definition exampleStats :: "int \<Rightarrow> epoch_stats" where
  "exampleStats i = \<lparr> es_epochIndex = i, es_startTimestamp = Some (t0 - 86400000),
     es_endTimestamp = Some t0, es_totalEligibleRewards = Some 10,
     es_totalDistributedRewards = None, es_distributionPercentage = None,
     es_observationCount = Some 3, es_totalObservers = Some 50, es_observationPercentage = Some 6,
     es_gatewaysPassed = None, es_gatewaysFailed = None, es_passPercentage = None,
     es_failPercentage = None, es_isDistributed = False \<rparr>"

definition noProvider :: epoch_provider where
  "noProvider = \<lparr> statsOfEpoch = (\<lambda>i. None), statsOfCurrentEpoch = None \<rparr>"

definition fullProvider :: epoch_provider where
  "fullProvider = \<lparr> statsOfEpoch = (\<lambda>i. Some (exampleStats i)), statsOfCurrentEpoch = Some (exampleStats 8) \<rparr>"

definition newEpochOnly :: epoch_provider where
  "newEpochOnly = \<lparr> statsOfEpoch = (\<lambda>i. if i = 8 then Some (exampleStats 8) else None),
     statsOfCurrentEpoch = Some (exampleStats 8) \<rparr>"

text \<open>The gateway is selected as observer of epoch 5, which ends at \<open>t0\<close>, and has not submitted
  a report; it is polled two hours before the end of the epoch, and one and six minutes
  after it.\<close>

definition selectedNoReport :: observer_status where
  "selectedNoReport = \<lparr> s_epochIndex = 5, s_isSelectedAsObserver = True, s_observerWeight = None,
     s_epochEndTimestamp = Some t0, s_hasSubmittedReport = Some False \<rparr>"

definition deadlinePolls :: "(int \<times> observer_status) list" where
  "deadlinePolls = [(t0 - 7200000, selectedNoReport), (t0 + 60000, selectedNoReport),
     (t0 + 360000, selectedNoReport)]"

text \<open>The state after the last check of epoch 7, and the status of the first check of epoch 8.\<close>

definition afterEpochSeven :: observer_state where
  "afterEpochSeven = \<lparr> observerSelectionHistory =
       [\<lparr> se_epochIndex = 7, se_selected = True, se_timestamp = t0 - 86400000 \<rparr>],
     lastObserverCheck = Some \<lparr> oc_epochIndex = 7, oc_wasSelected = True, oc_hadReport = True \<rparr> \<rparr>"

definition epochEight :: observer_status where
  "epochEight = \<lparr> s_epochIndex = 8, s_isSelectedAsObserver = False, s_observerWeight = None,
     s_epochEndTimestamp = Some (t0 + 86400000), s_hasSubmittedReport = None \<rparr>"

section \<open>Properties of the dispatcher\<close>

lemmas sender_defs = sendAlert_def sendResourceAlert_def sendPerformanceAlert_def
  sendObserverAlert_def sendGatewayChangeAlert_def sendArnsChangeAlert_def

lemma lastAlertOf_clear:
  "lastAlertOf (clearExpiredCategoryMutes now (clearExpiredMute now b)) k = lastAlertOf b k"
  by (simp add: lastAlertOf_def clearExpiredCategoryMutes_def clearExpiredMute_def)

lemma alertHistory_clear:
  "alertHistory (clearExpiredCategoryMutes now (clearExpiredMute now b)) = alertHistory b"
  by (simp add: clearExpiredCategoryMutes_def clearExpiredMute_def)

lemma lastAlertTime_clear:
  "lastAlertTime (clearExpiredCategoryMutes now (clearExpiredMute now b)) = lastAlertTime b"
  by (simp add: clearExpiredCategoryMutes_def clearExpiredMute_def)

lemma alertHistory_pushHistory:
  "alertHistory (pushHistory e b) =
     (if length (alertHistory b) \<ge> 100 then tl (alertHistory b @ [e]) else alertHistory b @ [e])"
  by (simp add: pushHistory_def Let_def)

text \<open>Every sender returns early exactly when less than its window has passed since the
  time stored under its key.\<close>

lemma dispatch_cooldown:
  "snd (dispatch cfg now c b) = SuppressedCooldown \<longleftrightarrow>
     now - lastAlertOf b (keyOf c) < (if isNetworkChange c then 300000 else alertCooldown cfg)"
  by (cases c) (auto simp: sender_defs Let_def lastAlertOf_clear)

text \<open>A sender that does not return early stores the time of the call under its key, and
  touches no other key.\<close>

lemma dispatch_lastAlertTime:
  "lastAlertTime (fst (dispatch cfg now c b)) =
     (if snd (dispatch cfg now c b) = SuppressedCooldown then lastAlertTime b
      else (lastAlertTime b)(keyOf c \<mapsto> now))"
  by (cases c) (auto simp: sender_defs Let_def lastAlertTime_clear lastAlertOf_clear pushHistory_def)

lemma dispatch_lastAlertOf:
  "snd (dispatch cfg now c b) \<noteq> SuppressedCooldown \<Longrightarrow>
     lastAlertOf (fst (dispatch cfg now c b)) (keyOf c) = now"
  by (simp add: lastAlertOf_def dispatch_lastAlertTime)

text \<open>Only \<open>sendAlert\<close> writes the alert history, and only past the cooldown check.\<close>

lemma sendAlert_alertHistory:
  "alertHistory (fst (sendAlert cfg now ty message category b)) =
     (if now - lastAlertOf b (GenericKey ty message) < alertCooldown cfg then alertHistory b
      else alertHistory (pushHistory \<lparr> h_timestamp = now, h_type = historyType ty message,
             h_message = message, h_severity = ty \<rparr> b))"
  by (simp add: sendAlert_def Let_def pushHistory_def alertHistory_clear lastAlertOf_clear)

lemma dispatch_alertHistory_other:
  "\<not> isGeneric c \<Longrightarrow> alertHistory (fst (dispatch cfg now c b)) = alertHistory b"
  by (cases c) (auto simp: sender_defs Let_def)

lemma dispatch_history_bounded:
  "length (alertHistory b) \<le> 100 \<Longrightarrow> length (alertHistory (fst (dispatch cfg now c b))) \<le> 100"
proof (cases "isGeneric c")
  case True
  then obtain ty message category where "c = SendAlert ty message category"
    by (cases c) auto
  moreover assume "length (alertHistory b) \<le> 100"
  ultimately show ?thesis
    by (simp add: sendAlert_alertHistory alertHistory_pushHistory)
next
  case False
  moreover assume "length (alertHistory b) \<le> 100"
  ultimately show ?thesis
    by (simp add: dispatch_alertHistory_other)
qed

lemma step_history_bounded:
  "length (alertHistory b) \<le> 100 \<Longrightarrow> length (alertHistory (step cfg e b)) \<le> 100"
  by (cases e) (simp_all add: dispatch_history_bounded setMute_def handleUnmute_def
      muteCategory_def unmuteCategory_def unmuteAllCategories_def split: option.splits)

lemma run_history_bounded:
  "length (alertHistory b) \<le> 100 \<Longrightarrow> length (alertHistory (run cfg es b)) \<le> 100"
  by (induction es arbitrary: b) (auto simp: step_history_bounded)

lemma mutedBot_simps:
  "lastAlertTime mutedBot = Map.empty" "alertHistory mutedBot = []" "isMuted mutedBot"
  "muteUntil mutedBot = Some (t0 + 3540000)" "categoryMutes mutedBot = Map.empty"
  by (simp_all add: mutedBot_def setMute_def initialBot_def t0_def)

lemma afterMutedAlert_eq:
  "sendAlert defaultDispatch t0 Critical ''Core service is DOWN'' (Some ''service_health'') mutedBot =
     (mutedBot\<lparr> alertHistory := [\<lparr> h_timestamp = t0, h_type = ''Core service is DOWN'',
                      h_message = ''Core service is DOWN'', h_severity = Critical \<rparr>],
        lastAlertTime := [GenericKey Critical ''Core service is DOWN'' \<mapsto> t0] \<rparr>,
      SuppressedGlobalMute)"
  apply (simp add: sendAlert_def Let_def lastAlertOf_def mutedBot_simps clearExpiredMute_def
      clearExpiredCategoryMutes_def truthyNum_def pushHistory_def historyType_def defaultDispatch_def)
  apply (simp add: t0_def mutedBot_def setMute_def initialBot_def)
  done


text \<open>
  C10. The in-memory alert history is bounded. Starting from an empty history, after any
  sequence of dispatches and operator actions followed by a call of \<open>sendAlert\<close> the
  history holds at most 100 entries; and when a call of \<open>sendAlert\<close> passes the cooldown
  check on a history of 100 entries, the oldest entry is dropped and the new one is appended
  at the end.
\<close>

theorem sendAlert_history_bounded:
  "(alertHistory b0 = [] \<longrightarrow>
      length (alertHistory (fst (sendAlert cfg now ty message category (run cfg es b0)))) \<le> 100)
   \<and> (length (alertHistory b) = 100
        \<and> alertCooldown cfg \<le> now - lastAlertOf b (GenericKey ty message) \<longrightarrow>
      alertHistory (fst (sendAlert cfg now ty message category b)) =
        tl (alertHistory b) @ [\<lparr> h_timestamp = now, h_type = historyType ty message,
                                   h_message = message, h_severity = ty \<rparr>])"
proof (intro conjI impI)
  assume "alertHistory b0 = []"
  then have "length (alertHistory (run cfg es b0)) \<le> 100"
    by (simp add: run_history_bounded)
  then have "length (alertHistory (fst (dispatch cfg now (SendAlert ty message category) (run cfg es b0)))) \<le> 100"
    by (rule dispatch_history_bounded)
  then show "length (alertHistory (fst (sendAlert cfg now ty message category (run cfg es b0)))) \<le> 100"
    by simp
next
  assume a: "length (alertHistory b) = 100
        \<and> alertCooldown cfg \<le> now - lastAlertOf b (GenericKey ty message)"
  then have "alertHistory b \<noteq> []" by auto
  with a show "alertHistory (fst (sendAlert cfg now ty message category b)) =
        tl (alertHistory b) @ [\<lparr> h_timestamp = now, h_type = historyType ty message,
                                   h_message = message, h_severity = ty \<rparr>]"
    by (simp add: sendAlert_alertHistory alertHistory_pushHistory)
qed

text \<open>Witness: a second alert after the start-up alert keeps the history within the bound; on a
  history of 100 entries the new alert leaves 99 old entries followed by its own.\<close>

theorem sendAlert_history_bounded_witness:
  "alertHistory initialBot = []
   \<and> length (alertHistory (fst (sendAlert defaultDispatch (t0 + 1) Warning ''Bot Started'' None
        (run defaultDispatch [Dispatch t0 (SendAlert Info ''Bot Started'' None)] initialBot)))) \<le> 100
   \<and> length (alertHistory fullBot) = 100
   \<and> alertCooldown defaultDispatch \<le> t0 + 1 - lastAlertOf fullBot (GenericKey Warning ''Bot Started'')
   \<and> alertHistory (fst (sendAlert defaultDispatch (t0 + 1) Warning ''Bot Started'' None fullBot)) =
        replicate 99 oldEntry @ [\<lparr> h_timestamp = t0 + 1, h_type = ''Bot Started'',
                                   h_message = ''Bot Started'', h_severity = Warning \<rparr>]"
proof -
  have r: "tl (replicate 100 oldEntry) = replicate 99 oldEntry"
    by simp
  have h: "historyType Warning ''Bot Started'' = ''Bot Started''"
    by (simp add: historyType_def)
  have f: "length (alertHistory fullBot) = 100
           \<and> alertCooldown defaultDispatch \<le> t0 + 1 - lastAlertOf fullBot (GenericKey Warning ''Bot Started'')"
    by (simp add: fullBot_def initialBot_def defaultDispatch_def t0_def lastAlertOf_def)
  have e: "alertHistory initialBot = []"
    by (simp add: initialBot_def)
  show ?thesis
    using sendAlert_history_bounded [of initialBot defaultDispatch "t0 + 1" Warning "''Bot Started''" None
        "[Dispatch t0 (SendAlert Info ''Bot Started'' None)]" fullBot] f e h r
    by (simp add: fullBot_def)
qed

text \<open>
  C5, counterexample. A CPU alert dispatched on a fresh bot passes the cooldown check and is
  sent, and the alert history is still empty: \<open>sendResourceAlert\<close> never writes the history.
\<close>

theorem resource_alert_not_in_history:
  "alertCooldown defaultDispatch \<le> t0 - lastAlertOf initialBot (ResourceKey Cpu 80)
   \<and> dispatch defaultDispatch t0 (SendResourceAlert Cpu 95 80) initialBot =
       (initialBot\<lparr> lastAlertTime := [ResourceKey Cpu 80 \<mapsto> t0] \<rparr>,
        Sent \<lparr> n_heading = ''WARNING'', n_muteButton = ''resource_cpu'', n_body = ResourceBody Cpu 95 80 \<rparr>)
   \<and> alertHistory (fst (dispatch defaultDispatch t0 (SendResourceAlert Cpu 95 80) initialBot)) = []"
  by (simp add: initialBot_def defaultDispatch_def t0_def lastAlertOf_def sendResourceAlert_def
      resourceSeverityText_def doubleTimesOnePointTwo_def)

text \<open>
  C5, as amended. For \<open>sendAlert\<close>: a call within the cooldown window returns early and
  leaves the alert history unchanged; a call that passes the cooldown check appends its entry
  to the history (dropping the oldest entry of a full history) before the mute checks, so
  whatever the outcome. Every other sender leaves the alert history unchanged, sent or not.
\<close>

theorem history_updates:
  "(now - lastAlertOf b (GenericKey ty message) < alertCooldown cfg \<longrightarrow>
      snd (sendAlert cfg now ty message category b) = SuppressedCooldown
      \<and> alertHistory (fst (sendAlert cfg now ty message category b)) = alertHistory b)
   \<and> (alertCooldown cfg \<le> now - lastAlertOf b (GenericKey ty message) \<longrightarrow>
      snd (sendAlert cfg now ty message category b) \<noteq> SuppressedCooldown
      \<and> alertHistory (fst (sendAlert cfg now ty message category b)) =
          (if length (alertHistory b) \<ge> 100 then tl (alertHistory b) else alertHistory b)
          @ [\<lparr> h_timestamp = now, h_type = historyType ty message,
               h_message = message, h_severity = ty \<rparr>])
   \<and> (\<not> isGeneric c \<longrightarrow> alertHistory (fst (dispatch cfg now c b)) = alertHistory b)"
proof (intro conjI impI)
  assume "now - lastAlertOf b (GenericKey ty message) < alertCooldown cfg"
  then show "snd (sendAlert cfg now ty message category b) = SuppressedCooldown"
    and "alertHistory (fst (sendAlert cfg now ty message category b)) = alertHistory b"
    using dispatch_cooldown [of cfg now "SendAlert ty message category" b]
    by (simp_all add: sendAlert_alertHistory)
next
  assume a: "alertCooldown cfg \<le> now - lastAlertOf b (GenericKey ty message)"
  then show "snd (sendAlert cfg now ty message category b) \<noteq> SuppressedCooldown"
    using dispatch_cooldown [of cfg now "SendAlert ty message category" b] by simp
  show "alertHistory (fst (sendAlert cfg now ty message category b)) =
          (if length (alertHistory b) \<ge> 100 then tl (alertHistory b) else alertHistory b)
          @ [\<lparr> h_timestamp = now, h_type = historyType ty message,
               h_message = message, h_severity = ty \<rparr>]"
  proof (cases "alertHistory b")
    case Nil
    with a show ?thesis by (simp add: sendAlert_alertHistory alertHistory_pushHistory)
  next
    case (Cons x xs)
    with a show ?thesis by (simp add: sendAlert_alertHistory alertHistory_pushHistory)
  qed
next
  assume "\<not> isGeneric c"
  then show "alertHistory (fst (dispatch cfg now c b)) = alertHistory b"
    by (rule dispatch_alertHistory_other)
qed

text \<open>Witness: on the muted bot the critical alert passes the cooldown check, is suppressed by
  the global mute and is in the history; one second later the same alert is within cooldown
  and the history stays as it is; a resource alert does not touch it either.\<close>

theorem history_updates_witness:
  "alertCooldown defaultDispatch \<le> t0 - lastAlertOf mutedBot (GenericKey Critical ''Core service is DOWN'')
   \<and> snd (sendAlert defaultDispatch t0 Critical ''Core service is DOWN'' (Some ''service_health'') mutedBot)
       = SuppressedGlobalMute
   \<and> alertHistory afterMutedAlert =
       [\<lparr> h_timestamp = t0, h_type = ''Core service is DOWN'',
          h_message = ''Core service is DOWN'', h_severity = Critical \<rparr>]
   \<and> t0 + 1000 - lastAlertOf afterMutedAlert (GenericKey Critical ''Core service is DOWN'')
       < alertCooldown defaultDispatch
   \<and> alertHistory (fst (sendAlert defaultDispatch (t0 + 1000) Critical ''Core service is DOWN''
         (Some ''service_health'') afterMutedAlert)) = alertHistory afterMutedAlert
   \<and> alertHistory (fst (dispatch defaultDispatch (t0 + 1000) (SendResourceAlert Cpu 95 80) afterMutedAlert))
       = alertHistory afterMutedAlert"
proof -
  have pass: "alertCooldown defaultDispatch \<le> t0 - lastAlertOf mutedBot (GenericKey Critical ''Core service is DOWN'')"
    by (simp add: lastAlertOf_def mutedBot_simps defaultDispatch_def t0_def)
  have within: "t0 + 1000 - lastAlertOf afterMutedAlert (GenericKey Critical ''Core service is DOWN'')
       < alertCooldown defaultDispatch"
    unfolding afterMutedAlert_def afterMutedAlert_eq
    by (simp add: lastAlertOf_def defaultDispatch_def)
  have other: "\<not> isGeneric (SendResourceAlert Cpu 95 80)"
    by simp
  show ?thesis
    using history_updates [of t0 mutedBot Critical "''Core service is DOWN''" defaultDispatch
        "Some ''service_health''" "SendResourceAlert Cpu 95 80"]
      history_updates [of "t0 + 1000" afterMutedAlert Critical "''Core service is DOWN''" defaultDispatch
        "Some ''service_health''" "SendResourceAlert Cpu 95 80"]
      pass within other
    by (simp add: afterMutedAlert_def afterMutedAlert_eq)
qed

text \<open>
  C3, counterexample. A block-sync alert against the threshold 100 is sent; a second one a
  minute later against the threshold 200 is suppressed by cooldown, so the threshold is not
  part of the key of a performance alert. Two CPU alerts against the thresholds 80 and 90 in
  the same minute are both sent.
\<close>

theorem performance_key_ignores_threshold:
  "snd (dispatch defaultDispatch t0 (SendPerformanceAlert BlockSync 150 100) initialBot) =
     Sent \<lparr> n_heading = ''PERFORMANCE DEGRADATION'', n_muteButton = ''performance_block_sync'',
            n_body = PerformanceBody BlockSync 150 100 \<rparr>
   \<and> snd (dispatch defaultDispatch (t0 + 60000) (SendPerformanceAlert BlockSync 250 200)
        (fst (dispatch defaultDispatch t0 (SendPerformanceAlert BlockSync 150 100) initialBot)))
       = SuppressedCooldown
   \<and> snd (dispatch defaultDispatch (t0 + 60000) (SendResourceAlert Cpu 95 90)
        (fst (dispatch defaultDispatch t0 (SendResourceAlert Cpu 95 80) initialBot)))
       = Sent \<lparr> n_heading = ''WARNING'', n_muteButton = ''resource_cpu'',
                n_body = ResourceBody Cpu 95 90 \<rparr>"
  by (simp add: sendPerformanceAlert_def sendResourceAlert_def lastAlertOf_def initialBot_def
      defaultDispatch_def t0_def resourceSeverityText_def doubleTimesOnePointTwo_def)

text \<open>
  C3, as amended. The cooldown of a resource alert is keyed by its type and threshold, that
  of a performance alert by its type alone; neither by the current value. Of two dispatches
  with the same key, the second less than the cooldown after the first, at most one reaches
  the channel; when the first passes the cooldown check it is the one sent and the second is
  suppressed, whatever the two current values (and, for performance alerts, thresholds). A
  resource alert leaves the time stored under every other key unchanged.
\<close>

theorem resource_dedup_by_threshold:
  "(t2 - t1 < alertCooldown cfg \<longrightarrow>
      channelCalls (snd (sendResourceAlert cfg t1 ty v1 threshold b))
        + channelCalls (snd (sendResourceAlert cfg t2 ty v2 threshold
                               (fst (sendResourceAlert cfg t1 ty v1 threshold b)))) \<le> 1
      \<and> (alertCooldown cfg \<le> t1 - lastAlertOf b (ResourceKey ty threshold) \<longrightarrow>
           channelCalls (snd (sendResourceAlert cfg t1 ty v1 threshold b)) = 1
           \<and> snd (sendResourceAlert cfg t2 ty v2 threshold
                    (fst (sendResourceAlert cfg t1 ty v1 threshold b))) = SuppressedCooldown))
   \<and> (t2 - t1 < alertCooldown cfg \<longrightarrow>
      channelCalls (snd (sendPerformanceAlert cfg t1 pty c1 threshold1 b))
        + channelCalls (snd (sendPerformanceAlert cfg t2 pty c2 threshold2
                               (fst (sendPerformanceAlert cfg t1 pty c1 threshold1 b)))) \<le> 1
      \<and> (alertCooldown cfg \<le> t1 - lastAlertOf b (PerformanceKey pty) \<longrightarrow>
           channelCalls (snd (sendPerformanceAlert cfg t1 pty c1 threshold1 b)) = 1
           \<and> snd (sendPerformanceAlert cfg t2 pty c2 threshold2
                    (fst (sendPerformanceAlert cfg t1 pty c1 threshold1 b))) = SuppressedCooldown))
   \<and> (k \<noteq> ResourceKey ty threshold \<longrightarrow>
        lastAlertOf (fst (sendResourceAlert cfg t1 ty v1 threshold b)) k = lastAlertOf b k)"
  by (auto simp: sendResourceAlert_def sendPerformanceAlert_def lastAlertOf_def Let_def)

text \<open>Witness: CPU alerts at 81 and at 95 against the threshold 80 a minute apart, and block-sync
  alerts against the thresholds 100 and 200 a minute apart: in both pairs the first is sent and
  the second is suppressed; the time stored for the CPU threshold 90 is not touched.\<close>

theorem resource_dedup_by_threshold_witness:
  "t0 + 60000 - t0 < alertCooldown defaultDispatch
   \<and> alertCooldown defaultDispatch \<le> t0 - lastAlertOf initialBot (ResourceKey Cpu 80)
   \<and> alertCooldown defaultDispatch \<le> t0 - lastAlertOf initialBot (PerformanceKey BlockSync)
   \<and> ResourceKey Cpu 90 \<noteq> ResourceKey Cpu 80
   \<and> channelCalls (snd (sendResourceAlert defaultDispatch t0 Cpu 81 80 initialBot)) = 1
   \<and> snd (sendResourceAlert defaultDispatch (t0 + 60000) Cpu 95 80
        (fst (sendResourceAlert defaultDispatch t0 Cpu 81 80 initialBot))) = SuppressedCooldown
   \<and> channelCalls (snd (sendPerformanceAlert defaultDispatch t0 BlockSync 150 100 initialBot)) = 1
   \<and> snd (sendPerformanceAlert defaultDispatch (t0 + 60000) BlockSync 250 200
        (fst (sendPerformanceAlert defaultDispatch t0 BlockSync 150 100 initialBot))) = SuppressedCooldown
   \<and> lastAlertOf (fst (sendResourceAlert defaultDispatch t0 Cpu 81 80 initialBot)) (ResourceKey Cpu 90)
       = lastAlertOf initialBot (ResourceKey Cpu 90)"
proof -
  have a: "t0 + 60000 - t0 < alertCooldown defaultDispatch"
    by (simp add: defaultDispatch_def)
  have b: "alertCooldown defaultDispatch \<le> t0 - lastAlertOf initialBot (ResourceKey Cpu 80)"
    "alertCooldown defaultDispatch \<le> t0 - lastAlertOf initialBot (PerformanceKey BlockSync)"
    by (simp_all add: defaultDispatch_def lastAlertOf_def initialBot_def t0_def)
  have c: "ResourceKey Cpu 90 \<noteq> ResourceKey Cpu 80"
    by simp
  show ?thesis
    using resource_dedup_by_threshold [of "t0 + 60000" t0 defaultDispatch Cpu 81 80 initialBot 95
        BlockSync 150 100 250 200 "ResourceKey Cpu 90"] a b c
    by simp
qed

text \<open>
  C9, counterexample. With the configured cooldown of 600000 ms, two alerts for the same
  gateway event 300000 ms apart are both sent: the window of \<open>sendGatewayChangeAlert\<close> is the
  literal 300000, not the configured cooldown.
\<close>

theorem gateway_window_is_hardcoded:
  "alertCooldown defaultDispatch = 600000
   \<and> snd (dispatch defaultDispatch t0 (SendGatewayChangeAlert gatewayJoined) initialBot) =
       Sent \<lparr> n_heading = ''GATEWAY JOINED'', n_muteButton = ''gateway_joined'',
              n_body = GatewayBody ''joined'' ''gateway-address'' \<rparr>
   \<and> snd (dispatch defaultDispatch (t0 + 300000) (SendGatewayChangeAlert gatewayJoined)
        (fst (dispatch defaultDispatch t0 (SendGatewayChangeAlert gatewayJoined) initialBot))) =
       Sent \<lparr> n_heading = ''GATEWAY JOINED'', n_muteButton = ''gateway_joined'',
              n_body = GatewayBody ''joined'' ''gateway-address'' \<rparr>"
  by (simp add: sendGatewayChangeAlert_def gatewayEventType_def gatewayHeading_def gatewayJoined_def
      lastAlertOf_def initialBot_def defaultDispatch_def t0_def Let_def)

text \<open>
  C9, as amended. After a dispatch that passed the cooldown check at \<open>t1\<close>, a dispatch with
  the same key at \<open>t2\<close> is suppressed by cooldown exactly when \<open>t2 - t1\<close> is less than the
  window of its kind: the configured \<open>alertCooldown\<close> for generic, resource, performance and
  observer alerts, and the fixed 300000 ms for gateway-change and ArNS-change alerts.
\<close>

theorem cooldown_window_by_kind:
  "keyOf c2 = keyOf c1 \<and> snd (dispatch cfg t1 c1 b) \<noteq> SuppressedCooldown \<longrightarrow>
     (snd (dispatch cfg t2 c2 (fst (dispatch cfg t1 c1 b))) = SuppressedCooldown
        \<longleftrightarrow> t2 - t1 < (if isNetworkChange c1 then 300000 else alertCooldown cfg))"
proof
  assume a: "keyOf c2 = keyOf c1 \<and> snd (dispatch cfg t1 c1 b) \<noteq> SuppressedCooldown"
  then have "lastAlertOf (fst (dispatch cfg t1 c1 b)) (keyOf c2) = t1"
    by (simp add: dispatch_lastAlertOf)
  moreover have "isNetworkChange c2 = isNetworkChange c1"
    using a by (cases c1; cases c2) auto
  ultimately show "snd (dispatch cfg t2 c2 (fst (dispatch cfg t1 c1 b))) = SuppressedCooldown
        \<longleftrightarrow> t2 - t1 < (if isNetworkChange c1 then 300000 else alertCooldown cfg)"
    by (simp add: dispatch_cooldown)
qed


text \<open>Witness, with the configured cooldown of 600000 ms: after a CPU alert at \<open>t0\<close> the next one is
  suppressed at \<open>t0 + 599999\<close> and passes at \<open>t0 + 600000\<close>; after a gateway alert at \<open>t0\<close> the
  next one is suppressed at \<open>t0 + 299999\<close> and passes at \<open>t0 + 300000\<close>.\<close>

theorem cooldown_window_by_kind_witness:
  "keyOf (SendResourceAlert Cpu 95 80) = keyOf (SendResourceAlert Cpu 81 80)
   \<and> snd (dispatch defaultDispatch t0 (SendResourceAlert Cpu 81 80) initialBot) \<noteq> SuppressedCooldown
   \<and> snd (dispatch defaultDispatch (t0 + 599999) (SendResourceAlert Cpu 95 80)
        (fst (dispatch defaultDispatch t0 (SendResourceAlert Cpu 81 80) initialBot))) = SuppressedCooldown
   \<and> snd (dispatch defaultDispatch (t0 + 600000) (SendResourceAlert Cpu 95 80)
        (fst (dispatch defaultDispatch t0 (SendResourceAlert Cpu 81 80) initialBot))) \<noteq> SuppressedCooldown
   \<and> snd (dispatch defaultDispatch t0 (SendGatewayChangeAlert gatewayJoined) initialBot) \<noteq> SuppressedCooldown
   \<and> snd (dispatch defaultDispatch (t0 + 299999) (SendGatewayChangeAlert gatewayJoined)
        (fst (dispatch defaultDispatch t0 (SendGatewayChangeAlert gatewayJoined) initialBot))) = SuppressedCooldown
   \<and> snd (dispatch defaultDispatch (t0 + 300000) (SendGatewayChangeAlert gatewayJoined)
        (fst (dispatch defaultDispatch t0 (SendGatewayChangeAlert gatewayJoined) initialBot))) \<noteq> SuppressedCooldown"
proof -
  have k: "keyOf (SendResourceAlert Cpu 95 80) = keyOf (SendResourceAlert Cpu 81 80)"
    by simp
  have r: "snd (dispatch defaultDispatch t0 (SendResourceAlert Cpu 81 80) initialBot) \<noteq> SuppressedCooldown"
    using dispatch_cooldown [of defaultDispatch t0 "SendResourceAlert Cpu 81 80" initialBot]
    by (simp add: lastAlertOf_def initialBot_def defaultDispatch_def t0_def)
  have g: "snd (dispatch defaultDispatch t0 (SendGatewayChangeAlert gatewayJoined) initialBot) \<noteq> SuppressedCooldown"
    using dispatch_cooldown [of defaultDispatch t0 "SendGatewayChangeAlert gatewayJoined" initialBot]
    by (simp add: lastAlertOf_def initialBot_def t0_def)
  show ?thesis
    using
      cooldown_window_by_kind [of "SendResourceAlert Cpu 95 80" "SendResourceAlert Cpu 81 80"
        defaultDispatch t0 initialBot "t0 + 599999"]
      cooldown_window_by_kind [of "SendResourceAlert Cpu 95 80" "SendResourceAlert Cpu 81 80"
        defaultDispatch t0 initialBot "t0 + 600000"]
      cooldown_window_by_kind [of "SendGatewayChangeAlert gatewayJoined" "SendGatewayChangeAlert gatewayJoined"
        defaultDispatch t0 initialBot "t0 + 299999"]
      cooldown_window_by_kind [of "SendGatewayChangeAlert gatewayJoined" "SendGatewayChangeAlert gatewayJoined"
        defaultDispatch t0 initialBot "t0 + 300000"]
      k r g
    by (simp add: defaultDispatch_def)
qed

text \<open>
  Mute precedence on the path of \<open>sendAlert\<close>: an active global mute suppresses the call
  whatever the category; a category mute whose time has passed changes nothing; and a mute
  of another category does not change the outcome.
\<close>

lemma sendAlert_global_mute:
  "isMuted b \<Longrightarrow> muteUntil b = Some u \<Longrightarrow> u \<noteq> 0 \<Longrightarrow> now < u \<Longrightarrow>
     channelCalls (snd (sendAlert cfg now ty message category b)) = 0"
  by (simp add: sendAlert_def Let_def clearExpiredMute_def clearExpiredCategoryMutes_def
      pushHistory_def truthyNum_def)

lemma sendAlert_expired_category_mute:
  "categoryMutes b c = Some u \<Longrightarrow> u \<le> now \<Longrightarrow>
     sendAlert cfg now ty message category (unmuteCategory c b) = sendAlert cfg now ty message category b"
proof -
  assume a: "categoryMutes b c = Some u" "u \<le> now"
  have "clearExpiredCategoryMutes now (clearExpiredMute now (unmuteCategory c b))
        = clearExpiredCategoryMutes now (clearExpiredMute now b)"
    using a by (auto simp: clearExpiredCategoryMutes_def clearExpiredMute_def unmuteCategory_def fun_eq_iff)
  moreover have "lastAlertOf (unmuteCategory c b) k = lastAlertOf b k" for k
    by (simp add: lastAlertOf_def unmuteCategory_def)
  ultimately show ?thesis
    by (simp add: sendAlert_def)
qed

lemma sendAlert_other_category_mute:
  "category \<noteq> Some c \<Longrightarrow>
     snd (sendAlert cfg now ty message category (muteCategory t c d b))
       = snd (sendAlert cfg now ty message category b)"
  by (cases category; cases d)
     (auto simp: sendAlert_def Let_def clearExpiredMute_def clearExpiredCategoryMutes_def
      pushHistory_def truthyNum_def truthyStr_def muteCategory_def lastAlertOf_def)

text \<open>
  C4, the failing input. While all alerts are muted, \<open>sendAlert\<close> is suppressed by the global
  mute but \<open>sendResourceAlert\<close> sends its CPU alert. After the operator muted the category
  \<open>resource_cpu\<close> with the mute button of that alert, \<open>sendAlert\<close> with that category is
  suppressed, and \<open>sendResourceAlert\<close> still sends the CPU alert, with the same button.
\<close>

theorem mute_ignored_by_resource_alert:
  "isMuted mutedBot \<and> muteUntil mutedBot = Some (t0 + 3540000)
   \<and> snd (sendAlert defaultDispatch t0 Critical ''Core service is DOWN'' (Some ''service_health'') mutedBot)
       = SuppressedGlobalMute
   \<and> snd (sendResourceAlert defaultDispatch t0 Cpu 95 80 mutedBot)
       = Sent \<lparr> n_heading = ''WARNING'', n_muteButton = ''resource_cpu'', n_body = ResourceBody Cpu 95 80 \<rparr>
   \<and> categoryMutes cpuMutedBot ''resource_cpu'' = Some (t0 - 60000 + 315360000000)
   \<and> snd (sendAlert defaultDispatch t0 Warning ''High CPU Usage'' (Some ''resource_cpu'') cpuMutedBot)
       = SuppressedCategoryMute
   \<and> snd (sendResourceAlert defaultDispatch t0 Cpu 95 80 cpuMutedBot)
       = Sent \<lparr> n_heading = ''WARNING'', n_muteButton = ''resource_cpu'', n_body = ResourceBody Cpu 95 80 \<rparr>"
  by (simp add: afterMutedAlert_eq mutedBot_simps)
     (simp add: sendResourceAlert_def sendAlert_def Let_def lastAlertOf_def resourceSeverityText_def
      doubleTimesOnePointTwo_def
      clearExpiredMute_def clearExpiredCategoryMutes_def pushHistory_def truthyNum_def truthyStr_def
      cpuMutedBot_def muteCategory_def mutedBot_def setMute_def initialBot_def defaultDispatch_def t0_def)

section \<open>Properties of the resource checks\<close>

text \<open>The calls of a run of \<open>checkResources\<close>, block by block, and the two histories it keeps.\<close>

lemma checkResources_calls:
  "snd (checkResources cfg now m s) =
     (case cpuUsagePercent m of None \<Rightarrow> [] | Some cpu \<Rightarrow> snd (checkCpu cfg now cpu (cpuHistory s)))
     @ checkGauge Memory (memoryUsagePercent m) (memoryThreshold cfg)
     @ checkGauge Disk (diskUsagePercent m) (diskThreshold cfg)
     @ checkGauge ResponseTime (averageResponseTimeMs m) (responseTimeThreshold cfg)
     @ checkBlockSync cfg m
     @ checkArnsCache cfg m
     @ (case (previousMetrics s, arnsErrors m, httpRequestsTotal m) of
          (Some prev, Some errors, Some requests) \<Rightarrow>
            snd (checkErrorRate cfg now (orZero (p_errors prev)) (orZero (p_totalRequests prev))
                   errors requests (errorRateHistory s))
        | _ \<Rightarrow> [])"
  by (simp add: checkResources_def Let_def split: prod.splits option.splits)

lemma checkResources_cpuHistory:
  "cpuHistory (fst (checkResources cfg now m s)) =
     (case cpuUsagePercent m of None \<Rightarrow> cpuHistory s
      | Some cpu \<Rightarrow> pruneCpuHistory now cpu (cpuHistory s))"
  by (simp add: checkResources_def checkCpu_def Let_def split: prod.splits option.splits)







lemma filter_cpu_checkGauge: "ty \<noteq> Cpu \<Longrightarrow> filter isCpuCall (checkGauge ty v threshold) = []"
  by (simp add: checkGauge_def split: option.splits)

lemma filter_cpu_others:
  "filter isCpuCall (checkBlockSync cfg m) = []"
  "filter isCpuCall (checkArnsCache cfg m) = []"
  "filter isCpuCall (snd (checkErrorRate cfg now pe pr e r hist)) = []"
  by (simp_all add: checkBlockSync_def checkArnsCache_def checkErrorRate_def Let_def split: option.splits)



text \<open>The two filters of the CPU block have equal lengths exactly when every sample of the
  sub-window is at or above the threshold.\<close>

lemma length_filter_eq_iff: "length (filter Q ys) = length ys \<longleftrightarrow> (\<forall>y\<in>set ys. Q y)"
proof -
  have "length (filter Q ys) + length (filter (\<lambda>x. \<not> Q x) ys) = length ys"
    by (rule sum_length_filter_compl)
  then have "length (filter Q ys) = length ys \<longleftrightarrow> filter (\<lambda>x. \<not> Q x) ys = []"
    by auto
  then show ?thesis
    by (simp add: filter_empty_conv)
qed

lemma cpuAlertFires_iff:
  "cpuAlertFires cfg now cpu hist \<longleftrightarrow>
     (let sub = filter (\<lambda>h. c_timestamp h > now - 600000
                          \<and> c_timestamp h \<ge> now - cpuDurationMinutes cfg * 60000)
                  (hist @ [\<lparr> c_value = cpu, c_timestamp = now \<rparr>])
      in int (length sub) \<ge> cpuDurationMinutes cfg
         \<and> (\<forall>h\<in>set sub. c_value h \<ge> cpuThreshold cfg)
         \<and> cpu \<ge> cpuThreshold cfg)"
proof -
  let ?pruned = "pruneCpuHistory now cpu hist"
  let ?sub = "filter (\<lambda>h. c_timestamp h > now - 600000
                          \<and> c_timestamp h \<ge> now - cpuDurationMinutes cfg * 60000)
                  (hist @ [\<lparr> c_value = cpu, c_timestamp = now \<rparr>])"
  have sub: "samplesInWindow cfg now ?pruned = ?sub"
    by (simp add: samplesInWindow_def pruneCpuHistory_def Let_def conj_commute mult.commute)
  have high: "recentHighCpu cfg now ?pruned = filter (\<lambda>h. c_value h \<ge> cpuThreshold cfg) ?sub"
    by (simp add: recentHighCpu_def pruneCpuHistory_def Let_def conj_commute conj_left_commute
        mult.commute)
  show ?thesis
    unfolding cpuAlertFires_def Let_def sub high length_filter_eq_iff ..
qed

text \<open>The \<open>reduce\<close> of the error-rate block sums both fields; a reset leaves at most the sample
  of the current cycle; samples keep non-negative errors and positive requests.\<close>

lemma aggregate_foldl:
  "foldl (\<lambda>acc sample. (fst acc + e_errors sample, snd acc + e_requests sample)) (a, b) hist
     = (a + sum_list (map e_errors hist), b + sum_list (map e_requests hist))"
  by (induction hist arbitrary: a b) simp_all

lemma aggregate_sums:
  "aggregate hist = (sum_list (map e_errors hist), sum_list (map e_requests hist))"
  by (simp add: aggregate_def aggregate_foldl)







text \<open>
  C2. With a CPU sample in the metrics, the sustained-CPU alert is requested if and only if
  the sub-window (the samples of the last ten minutes, the current one included, that are
  not older than \<open>cpuDurationMinutes\<close>) holds at least \<open>cpuDurationMinutes\<close> samples, every
  sample of the sub-window is at or above \<open>cpuThreshold\<close>, and the current sample is at or
  above it; one sample of the sub-window below the threshold prevents the alert. The history
  kept for the next check is the samples of the last ten minutes, the current one included.
  Without a CPU sample no CPU alert is requested.
\<close>

theorem sustained_cpu_alert:
  "(cpuUsagePercent m = None \<longrightarrow> filter isCpuCall (snd (checkResources cfg now m s)) = [])
   \<and> (cpuUsagePercent m = Some cpu \<longrightarrow>
        (let sub = filter (\<lambda>h. c_timestamp h > now - 600000
                               \<and> c_timestamp h \<ge> now - cpuDurationMinutes cfg * 60000)
                     (cpuHistory s @ [\<lparr> c_value = cpu, c_timestamp = now \<rparr>])
         in filter isCpuCall (snd (checkResources cfg now m s)) =
              (if int (length sub) \<ge> cpuDurationMinutes cfg
                  \<and> (\<forall>h\<in>set sub. c_value h \<ge> cpuThreshold cfg)
                  \<and> cpu \<ge> cpuThreshold cfg
               then [SendResourceAlert Cpu cpu (cpuThreshold cfg)] else [])
            \<and> ((\<exists>h\<in>set sub. c_value h < cpuThreshold cfg) \<longrightarrow>
                  filter isCpuCall (snd (checkResources cfg now m s)) = [])
            \<and> cpuHistory (fst (checkResources cfg now m s)) =
                  filter (\<lambda>h. c_timestamp h > now - 600000)
                    (cpuHistory s @ [\<lparr> c_value = cpu, c_timestamp = now \<rparr>])))"
proof -
  have calls: "filter isCpuCall (snd (checkResources cfg now m s)) =
     (case cpuUsagePercent m of None \<Rightarrow> []
      | Some c \<Rightarrow> if cpuAlertFires cfg now c (cpuHistory s)
                  then [SendResourceAlert Cpu c (cpuThreshold cfg)] else [])"
    by (simp add: checkResources_calls filter_cpu_checkGauge filter_cpu_others checkCpu_def
        split: option.splits prod.splits)
  have hist: "cpuUsagePercent m = Some cpu \<Longrightarrow>
      cpuHistory (fst (checkResources cfg now m s)) =
        filter (\<lambda>h. c_timestamp h > now - 600000)
          (cpuHistory s @ [\<lparr> c_value = cpu, c_timestamp = now \<rparr>])"
    by (simp add: checkResources_cpuHistory pruneCpuHistory_def)
  show ?thesis
    unfolding calls cpuAlertFires_iff Let_def
    using hist by (auto simp: not_le)
qed

text \<open>Witness: the four samples of the specification's example followed by a fifth of 91 at
  240 s request the alert; with the second sample at 79 they do not.\<close>

theorem sustained_cpu_alert_witness:
  "cpuUsagePercent noMetrics = None
   \<and> filter isCpuCall (snd (checkResources defaultAlerts 240000 noMetrics fourHighSamples)) = []
   \<and> cpuUsagePercent (cpuMetrics 91) = Some 91
   \<and> filter isCpuCall (snd (checkResources defaultAlerts 240000 (cpuMetrics 91) fourHighSamples))
       = [SendResourceAlert Cpu 91 80]
   \<and> filter isCpuCall (snd (checkResources defaultAlerts 240000 (cpuMetrics 91) oneLowSample)) = []"
proof -
  have n: "cpuUsagePercent noMetrics = None" "cpuUsagePercent (cpuMetrics 91) = Some 91"
    by (simp_all add: noMetrics_def cpuMetrics_def)
  show ?thesis
    using sustained_cpu_alert [of noMetrics defaultAlerts 240000 fourHighSamples 91]
      sustained_cpu_alert [of "cpuMetrics 91" defaultAlerts 240000 fourHighSamples 91]
      sustained_cpu_alert [of "cpuMetrics 91" defaultAlerts 240000 oneLowSample 91] n
    by (simp add: fourHighSamples_def oneLowSample_def initialResourceState_def defaultAlerts_def)
qed




text \<open>
  A drop that is not seen. After a restart the raw counters are 0 and \<open>fetchPrometheusMetrics\<close>
  hands both over as undefined, so the error-rate block is skipped: the window keeps its two
  samples. The next cycle compares the counters 4 and 100 with 0, sees no negative delta, and
  aggregates the two samples from before the restart with the new one.
\<close>

lemma restart_at_zero_keeps_window:
  "arnsErrors (fetchedMetrics (Some 0) (Some 0) (Some 0)) = None
   \<and> httpRequestsTotal (fetchedMetrics (Some 0) (Some 0) (Some 0)) = None
   \<and> errorRateHistory (fst (runResources defaultAlerts (take 1 restartPolls) beforeReset))
       = errorRateHistory beforeReset
   \<and> errorRateHistory (fst (runResources defaultAlerts restartPolls beforeReset)) =
       [\<lparr> e_errors = 5, e_requests = 100, e_timestamp = 60000 \<rparr>,
        \<lparr> e_errors = 3, e_requests = 100, e_timestamp = 120000 \<rparr>,
        \<lparr> e_errors = 4, e_requests = 100, e_timestamp = 240000 \<rparr>]"
  by (simp add: restartPolls_def fetchedMetrics_def fetchedErrors_def fetchedRequests_def
      orUndefined_def noMetrics_def checkResources_def checkErrorRate_def errorRateWindow_def
      clearOnReset_def checkGauge_def checkBlockSync_def checkArnsCache_def beforeReset_def
      lastCounters_def orZero_def aggregate_sums smoothedErrorRate_def defaultAlerts_def
      doubleRatePercent_def Let_def)




section \<open>Properties of the observer check\<close>

text \<open>Only the report block requests the report-failed alert, and only the epoch-change block
  requests informational alerts.\<close>

lemma reportFailed_epochChange: "filter isReportFailed (epochChangeCalls rt p lastCheck status) = []"
  by (simp add: epochChangeCalls_def Let_def split: option.splits)

lemma reportFailed_selection:
  "filter isReportFailed (fst (snd (selectionStep cfg lastCheck status now hist))) = []"
  by (simp add: selectionStep_def Let_def split: list.splits)

lemma reportFailed_lowWeight: "filter isReportFailed (lowWeightCalls cfg status) = []"
  by (simp add: lowWeightCalls_def split: option.splits)

lemma checkObserver_reportFailed:
  "filter isReportFailed (snd (checkObserver cfg rt p now status s)) =
     (if s_isSelectedAsObserver status \<and> s_hasSubmittedReport status \<noteq> Some True
         \<and> hoursRemaining status now \<le> 0 \<and> epochDiffers (lastObserverCheck s) status
      then [SendObserverAlert ReportFailed
              \<lparr> d_value = None, d_threshold = None, d_epochIndex = Some (s_epochIndex status) \<rparr>]
      else [])"
proof -
  obtain hist selCalls threw where
    sel: "selectionStep cfg (lastObserverCheck s) status now (observerSelectionHistory s) = (hist, selCalls, threw)"
    by (cases "selectionStep cfg (lastObserverCheck s) status now (observerSelectionHistory s)") auto
  have "filter isReportFailed selCalls = []"
    using reportFailed_selection [of cfg "lastObserverCheck s" status now "observerSelectionHistory s"] sel
    by simp
  then show ?thesis
    by (simp add: checkObserver_def Let_def sel reportFailed_epochChange reportFailed_lowWeight
        reportCalls_def)
qed

lemma infoAlert_report: "filter isInfoAlert (reportCalls lastCheck status now) = []"
  by (simp add: reportCalls_def Let_def)

lemma infoAlert_selection:
  "filter isInfoAlert (fst (snd (selectionStep cfg lastCheck status now hist))) = []"
  by (simp add: selectionStep_def Let_def split: list.splits)

lemma infoAlert_lowWeight: "filter isInfoAlert (lowWeightCalls cfg status) = []"
  by (simp add: lowWeightCalls_def split: option.splits)

lemma infoAlert_epochChange:
  "filter isInfoAlert (epochChangeCalls rt p lastCheck status) = epochChangeCalls rt p lastCheck status"
  by (simp add: epochChangeCalls_def Let_def split: option.splits)

lemma checkObserver_infoAlerts:
  "filter isInfoAlert (snd (checkObserver cfg rt p now status s)) =
     epochChangeCalls rt p (lastObserverCheck s) status"
proof -
  obtain hist selCalls threw where
    sel: "selectionStep cfg (lastObserverCheck s) status now (observerSelectionHistory s) = (hist, selCalls, threw)"
    by (cases "selectionStep cfg (lastObserverCheck s) status now (observerSelectionHistory s)") auto
  have "filter isInfoAlert selCalls = []"
    using infoAlert_selection [of cfg "lastObserverCheck s" status now "observerSelectionHistory s"] sel
    by simp
  then show ?thesis
    by (simp add: checkObserver_def Let_def sel infoAlert_epochChange infoAlert_report
        infoAlert_lowWeight)
qed

text \<open>With a non-negative threshold the selection block does not throw, so every check ends
  by recording the epoch it saw; the poll that follows a poll of the same epoch never
  requests the report-failed alert.\<close>

lemma sliceLast_nonempty: "0 \<le> n \<Longrightarrow> xs \<noteq> [] \<Longrightarrow> sliceLast n xs \<noteq> []"
proof (cases "n = 0")
  case True
  assume "xs \<noteq> []"
  with True show ?thesis by (simp add: sliceLast_def)
next
  case False
  assume a: "0 \<le> n" "xs \<noteq> []"
  with False have "0 < nat n" and "0 < length xs" by simp_all
  then have "\<not> length xs \<le> length xs - nat n" by arith
  with False a show ?thesis by (simp add: sliceLast_def)
qed

lemma capped_nonempty: "(if length (hist @ [e]) > 20 then tl (hist @ [e]) else hist @ [e]) \<noteq> []"
  by (cases hist) auto

lemma selectionStep_no_throw:
  "0 \<le> notSelectedEpochsThreshold cfg \<Longrightarrow>
     \<not> snd (snd (selectionStep cfg lastCheck status now hist))"
proof -
  assume a: "0 \<le> notSelectedEpochsThreshold cfg"
  let ?e = "\<lparr> se_epochIndex = s_epochIndex status, se_selected = s_isSelectedAsObserver status,
              se_timestamp = now \<rparr>"
  let ?capped = "if length (hist @ [?e]) > 20 then tl (hist @ [?e]) else hist @ [?e]"
  have "sliceLast (notSelectedEpochsThreshold cfg) ?capped \<noteq> []"
    using a capped_nonempty [of hist ?e] by (rule sliceLast_nonempty)
  then obtain first rest where "sliceLast (notSelectedEpochsThreshold cfg) ?capped = first # rest"
    by (cases "sliceLast (notSelectedEpochsThreshold cfg) ?capped") auto
  then show ?thesis
    by (simp add: selectionStep_def Let_def)
qed

lemma checkObserver_lastObserverCheck:
  "0 \<le> notSelectedEpochsThreshold cfg \<Longrightarrow>
     lastObserverCheck (fst (checkObserver cfg rt p now status s)) =
       Some \<lparr> oc_epochIndex = s_epochIndex status, oc_wasSelected = s_isSelectedAsObserver status,
              oc_hadReport = (s_hasSubmittedReport status = Some True) \<rparr>"
proof -
  assume a: "0 \<le> notSelectedEpochsThreshold cfg"
  obtain hist selCalls threw where
    sel: "selectionStep cfg (lastObserverCheck s) status now (observerSelectionHistory s) = (hist, selCalls, threw)"
    by (cases "selectionStep cfg (lastObserverCheck s) status now (observerSelectionHistory s)") auto
  have "\<not> threw"
    using selectionStep_no_throw [OF a, of "lastObserverCheck s" status now "observerSelectionHistory s"] sel
    by simp
  then show ?thesis
    by (simp add: checkObserver_def Let_def sel)
qed

text \<open>The gate of the report-failed alert looks at the check before only: on a check that
  directly follows a check of the same epoch, no report-failed alert is requested.\<close>

lemma reportFailed_not_within_epoch:
  "0 \<le> notSelectedEpochsThreshold cfg \<Longrightarrow> s_epochIndex status' = s_epochIndex status \<Longrightarrow>
     filter isReportFailed
       (snd (checkObserver cfg rt p now' status' (fst (checkObserver cfg rt p now status s)))) = []"
  by (simp add: checkObserver_reportFailed checkObserver_lastObserverCheck epochDiffers_def)

text \<open>
  C7, the failing input. The gateway is selected for epoch 5 and never submits. It is polled
  two hours before the end of the epoch (a warning is sent), then one minute and six minutes
  after the end: the remaining time is below zero at both, and no report-failed alert is
  requested at either, because the first poll already recorded epoch 5. Polled for the first
  time half an hour before the end of the epoch, the alert is requested although the
  remaining time is still positive.
\<close>

theorem deadline_passes_without_report_failed:
  "hoursRemaining selectedNoReport (t0 - 7200000) = 2
   \<and> hoursRemaining selectedNoReport (t0 + 60000) = - 1
   \<and> hoursRemaining selectedNoReport (t0 + 360000) = - 1
   \<and> snd (runObserver defaultAlerts plainRuntime noProvider deadlinePolls initialObserverState)
       = [[SendAlert Warning (reportMissingMessage 5 2) (Some ''observer_report'')], [], []]
   \<and> hoursRemaining selectedNoReport (t0 - 1800000) = 0
   \<and> filter isReportFailed (snd (checkObserver defaultAlerts plainRuntime noProvider (t0 - 1800000)
        selectedNoReport initialObserverState))
       = [SendObserverAlert ReportFailed \<lparr> d_value = None, d_threshold = None, d_epochIndex = Some 5 \<rparr>]"
proof -
  have h: "hoursRemaining selectedNoReport (t0 - 7200000) = 2"
    "hoursRemaining selectedNoReport (t0 + 60000) = - 1"
    "hoursRemaining selectedNoReport (t0 + 360000) = - 1"
    "hoursRemaining selectedNoReport (t0 - 1800000) = 0"
    by (simp_all add: hoursRemaining_def selectedNoReport_def truthyNum_def t0_def)
  have s: "s_epochIndex selectedNoReport = 5" "s_isSelectedAsObserver selectedNoReport"
    "s_hasSubmittedReport selectedNoReport = Some False" "s_observerWeight selectedNoReport = None"
    by (simp_all add: selectedNoReport_def)
  have polls: "snd (runObserver defaultAlerts plainRuntime noProvider deadlinePolls initialObserverState)
       = [[SendAlert Warning (reportMissingMessage 5 2) (Some ''observer_report'')], [], []]"
    by (simp add: deadlinePolls_def checkObserver_def epochChangeCalls_def reportCalls_def
        selectionStep_def lowWeightCalls_def epochDiffers_def sliceLast_def initialObserverState_def
        defaultAlerts_def Let_def h s)
  have early: "filter isReportFailed (snd (checkObserver defaultAlerts plainRuntime noProvider (t0 - 1800000)
        selectedNoReport initialObserverState))
       = [SendObserverAlert ReportFailed \<lparr> d_value = None, d_threshold = None, d_epochIndex = Some 5 \<rparr>]"
    by (simp add: checkObserver_reportFailed epochDiffers_def initialObserverState_def h s)
  show ?thesis
    using h polls early by simp
qed

text \<open>
  C8, counterexample. The epoch index changes from 7 to 8 between two checks, the fetch of
  the statistics of epoch 7 fails and that of epoch 8 succeeds: one informational alert is
  requested, the one for the start of epoch 8.
\<close>

theorem failed_stats_fetch_drops_alert:
  "lastObserverCheck afterEpochSeven = Some \<lparr> oc_epochIndex = 7, oc_wasSelected = True, oc_hadReport = True \<rparr>
   \<and> s_epochIndex epochEight = 7 + 1
   \<and> getEpochStats newEpochOnly 7 = None
   \<and> filter isInfoAlert (snd (checkObserver defaultAlerts plainRuntime newEpochOnly (t0 + 60000)
        epochEight afterEpochSeven)) =
       [SendAlert Info (formatEpochChangeMessage plainRuntime Started (exampleStats 8)) (Some ''epoch'')]
   \<and> length (filter isInfoAlert (snd (checkObserver defaultAlerts plainRuntime newEpochOnly (t0 + 60000)
        epochEight afterEpochSeven))) = 1"
  by (simp add: checkObserver_infoAlerts epochChangeCalls_def getEpochStats_def newEpochOnly_def
      afterEpochSeven_def epochEight_def Let_def)

text \<open>
  C8, as amended. When the epoch index changes from \<open>n\<close> to \<open>n + 1\<close> between two consecutive
  checks, the informational alerts requested are: the summary "ended" built from the
  statistics that \<open>getEpochStats\<close> returns for \<open>n\<close>, when that fetch succeeds, followed by the
  summary "started" built from the statistics it returns for \<open>n + 1\<close>, when that fetch
  succeeds. So exactly two, in this order, when both fetches succeed.
\<close>

theorem epoch_change_alerts:
  "(lastObserverCheck s = Some c \<and> oc_epochIndex c = n \<and> s_epochIndex status = n + 1 \<longrightarrow>
      filter isInfoAlert (snd (checkObserver cfg rt p now status s)) =
        (case getEpochStats p n of
           None \<Rightarrow> []
         | Some previousStats \<Rightarrow>
             [SendAlert Info (formatEpochChangeMessage rt Ended previousStats) (Some ''epoch'')])
        @ (case getEpochStats p (n + 1) of
             None \<Rightarrow> []
           | Some currentStats \<Rightarrow>
               [SendAlert Info (formatEpochChangeMessage rt Started currentStats) (Some ''epoch'')]))
   \<and> (lastObserverCheck s = Some c \<and> oc_epochIndex c = n \<and> s_epochIndex status = n + 1
        \<and> getEpochStats p n = Some previousStats \<and> getEpochStats p (n + 1) = Some currentStats \<longrightarrow>
      filter isInfoAlert (snd (checkObserver cfg rt p now status s)) =
        [SendAlert Info (formatEpochChangeMessage rt Ended previousStats) (Some ''epoch''),
         SendAlert Info (formatEpochChangeMessage rt Started currentStats) (Some ''epoch'')])"
  by (auto simp: checkObserver_infoAlerts epochChangeCalls_def Let_def)

text \<open>Witness: the epoch index changes from 7 to 8 and the provider knows both epochs.\<close>

theorem epoch_change_alerts_witness:
  "lastObserverCheck afterEpochSeven = Some \<lparr> oc_epochIndex = 7, oc_wasSelected = True, oc_hadReport = True \<rparr>
   \<and> s_epochIndex epochEight = 7 + 1
   \<and> getEpochStats fullProvider 7 = Some (exampleStats 7)
   \<and> getEpochStats fullProvider (7 + 1) = Some (exampleStats 8)
   \<and> filter isInfoAlert (snd (checkObserver defaultAlerts plainRuntime fullProvider (t0 + 60000)
        epochEight afterEpochSeven)) =
       [SendAlert Info (formatEpochChangeMessage plainRuntime Ended (exampleStats 7)) (Some ''epoch''),
        SendAlert Info (formatEpochChangeMessage plainRuntime Started (exampleStats 8)) (Some ''epoch'')]"
proof -
  have a: "lastObserverCheck afterEpochSeven = Some \<lparr> oc_epochIndex = 7, oc_wasSelected = True, oc_hadReport = True \<rparr>"
    "s_epochIndex epochEight = 7 + 1"
    "getEpochStats fullProvider 7 = Some (exampleStats 7)"
    "getEpochStats fullProvider (7 + 1) = Some (exampleStats 8)"
    by (simp_all add: afterEpochSeven_def epochEight_def getEpochStats_def fullProvider_def)
  show ?thesis
    using epoch_change_alerts [of afterEpochSeven
        "\<lparr> oc_epochIndex = 7, oc_wasSelected = True, oc_hadReport = True \<rparr>" 7 epochEight
        defaultAlerts plainRuntime fullProvider "t0 + 60000" "exampleStats 7" "exampleStats 8"] a
    by simp
qed

end
